theory Spec2Isabelle
  imports Main "HOL-Library.Multiset"
begin

section \<open>Wallets, accounts and module constants\<close>

text \<open>
  The module \<^verbatim>\<open>src/dapp-kit/connect-button.js\<close> keeps its selection in module-level
  variables and talks to four collaborators: the wallet registry, the capabilities of
  each wallet, the browser (storage, DOM, console) and the state bridge. Wallets and
  accounts are plain objects of the Wallet Standard: a wallet always carries a name,
  a feature table and an account list; the field \<^verbatim>\<open>id\<close> is optional. A feature is
  listed in \<open>wallet_features\<close> exactly when the wallet's feature table holds a
  truthy entry of that name. \<open>account_chains\<close> is \<open>None\<close> when the field is not
  an array.

  The module tests two entries for their method before it calls it:
  \<^verbatim>\<open>eventsFeature?.on\<close> and \<^verbatim>\<open>disconnectFeature?.disconnect\<close>. \<open>wallet_events_on\<close> is
  the \<^verbatim>\<open>on\<close> member of the \<^verbatim>\<open>standard:events\<close> entry, \<open>None\<close> when the entry has none;
  calling it either throws or returns the function that removes the listener again, and
  that function in turn either returns or throws when it is called. \<open>wallet_disconnect\<close>
  tells whether the \<^verbatim>\<open>standard:disconnect\<close> entry has a \<^verbatim>\<open>disconnect\<close> member. The
  \<^verbatim>\<open>connect\<close> method is called without such a test: an entry \<^verbatim>\<open>standard:connect\<close>
  carries it. The \<^verbatim>\<open>connect\<close> and \<^verbatim>\<open>disconnect\<close> methods are asynchronous, as the
  Wallet Standard types them: they fail by rejecting the promise they return.
\<close>

datatype js_error =
    Error string
  | TypeError string
  | CapabilityError string

datatype unsubscribe_function = Unsubscribes | UnsubscribeThrows js_error

datatype on_method = OnReturns unsubscribe_function | OnThrows js_error

record account =
  account_address :: string
  account_chains :: "string list option"

record wallet =
  wallet_id :: "string option"
  wallet_name :: string
  wallet_features :: "string list"
  wallet_accounts :: "account list"
  wallet_events_on :: "on_method option"
  wallet_disconnect :: bool

definition SUI_MAINNET_CHAIN :: string where
  "SUI_MAINNET_CHAIN = ''sui:mainnet''"

definition PREFERRED_WALLET_KEY :: string where
  "PREFERRED_WALLET_KEY = ''walrus-pages.preferred-wallet''"

text \<open>\<^verbatim>\<open>wallet?.id || wallet?.name || ''\<close>: an empty id is falsy and falls through to the name.\<close>

definition getWalletIdentifier :: "wallet option \<Rightarrow> string" where
  "getWalletIdentifier wo =
     (case wo of
        None \<Rightarrow> ''''
      | Some w \<Rightarrow>
          (case wallet_id w of
             None \<Rightarrow> wallet_name w
           | Some i \<Rightarrow> if i \<noteq> '''' then i else wallet_name w))"

text \<open>Addresses shorter than twelve characters are shown whole.\<close>

definition truncateAddress :: "string \<Rightarrow> string" where
  "truncateAddress a =
     (if a = '''' \<or> length a < 12 then a
      else take 6 a @ ''...'' @ drop (length a - 4) a)"

definition includesMainnet :: "account \<Rightarrow> bool" where
  "includesMainnet a =
     (case account_chains a of
        None \<Rightarrow> False
      | Some cs \<Rightarrow> SUI_MAINNET_CHAIN \<in> set cs)"

text \<open>
  \<^verbatim>\<open>accounts.find(...) || accounts[0] || null\<close>: reading index 0 of an empty array
  gives \<^verbatim>\<open>undefined\<close>, so the empty list yields no account.
\<close>

definition getPreferredAccount :: "account list \<Rightarrow> account option" where
  "getPreferredAccount accts =
     (case find includesMainnet accts of
        Some a \<Rightarrow> Some a
      | None \<Rightarrow> (case accts of [] \<Rightarrow> None | a # _ \<Rightarrow> Some a))"

definition hasFeature :: "wallet \<Rightarrow> string \<Rightarrow> bool" where
  "hasFeature w f = (f \<in> set (wallet_features w))"

definition canConnect :: "wallet \<Rightarrow> bool" where
  "canConnect w =
     (hasFeature w ''standard:connect'' \<and>
      (hasFeature w ''sui:signTransaction'' \<or>
       hasFeature w ''sui:signTransactionBlock'' \<or>
       hasFeature w ''sui:signAndExecuteTransaction'' \<or>
       hasFeature w ''sui:signAndExecuteTransactionBlock''))"

subsection \<open>Sorting with a comparator\<close>

text \<open>
  \<^verbatim>\<open>Array.prototype.sort\<close> with a comparator is stable: an element moves in front of
  another one only when the comparator does not put it after. The comparator of the
  module is \<^verbatim>\<open>a.name.localeCompare(b.name)\<close>; the collation behind
  \<^verbatim>\<open>localeCompare\<close> belongs to the browser and is a parameter here.
\<close>

type_synonym comparator = "string \<Rightarrow> string \<Rightarrow> int"

fun insertWallet :: "comparator \<Rightarrow> wallet \<Rightarrow> wallet list \<Rightarrow> wallet list" where
  "insertWallet lc w [] = [w]"
| "insertWallet lc w (v # vs) =
     (if lc (wallet_name w) (wallet_name v) \<le> 0 then w # v # vs
      else v # insertWallet lc w vs)"

definition sortByName :: "comparator \<Rightarrow> wallet list \<Rightarrow> wallet list" where
  "sortByName lc ws = foldr (insertWallet lc) ws []"

definition nameOrder :: "comparator \<Rightarrow> wallet \<Rightarrow> wallet \<Rightarrow> bool" where
  "nameOrder lc a b = (lc (wallet_name a) (wallet_name b) \<le> 0)"

text \<open>A comparator is consistent when it compares any two names and is transitive.\<close>

definition consistentComparator :: "comparator \<Rightarrow> bool" where
  "consistentComparator lc =
     ((\<forall>a b. lc a b \<le> 0 \<or> lc b a \<le> 0) \<and>
      (\<forall>a b c. lc a b \<le> 0 \<and> lc b c \<le> 0 \<longrightarrow> lc a c \<le> 0))"

section \<open>Module state and its collaborators\<close>

datatype console_entry =
    ConsoleError string js_error
  | ConsoleWarn string "js_error option"

datatype status = StatusConnected | StatusConnecting | StatusDisconnected

text \<open>
  What \<^verbatim>\<open>syncBridgeState\<close> hands to the bridge. \<open>bridge_disconnect\<close> tells whether
  the \<^verbatim>\<open>disconnectWallet\<close> function was passed; \<open>bridge_signAndExecute\<close> holds the pair
  captured by the closure \<^verbatim>\<open>getSigner(selectedWallet, selectedAccount)\<close>.
\<close>

record bridge_state =
  bridge_wallet :: "wallet option"
  bridge_account :: "account option"
  bridge_status :: status
  bridge_disconnect :: bool
  bridge_signAndExecute :: "(wallet \<times> account) option"

datatype capability_call = ConnectCall wallet | DisconnectCall wallet

datatype button_label = LabelConnect | LabelConnecting | LabelAddress string

datatype list_item = EmptyStateMessage | WalletOption wallet bool

text \<open>The markup that \<^verbatim>\<open>mountWalletConnectButton\<close> writes into a container.\<close>

record widget_dom =
  button_text :: button_label
  button_disabled :: bool
  picker_hidden :: bool
  wallet_list :: "list_item list"
  disconnect_hidden :: bool

type_synonym container = nat

record subscription =
  subscription_wallet :: wallet
  subscription_unsubscribe :: unsubscribe_function

text \<open>
  The module variables and the parts of the environment they act on.
  \<open>registry\<close> is what \<^verbatim>\<open>walletsApi.get()\<close> returns; \<open>localStorage\<close> is \<open>None\<close> in a
  context where every storage access throws; \<open>documentIds\<close> is
  \<^verbatim>\<open>document.getElementById\<close>; \<open>domTree\<close> holds the widget markup of each container it
  was written to; \<open>elements\<close> is the container whose children \<^verbatim>\<open>buttonEl\<close>,
  \<^verbatim>\<open>pickerEl\<close>, \<^verbatim>\<open>walletListEl\<close> and \<^verbatim>\<open>disconnectEl\<close> refer to (they are assigned
  together). \<open>walletEventsUnsubscribe\<close> holds the function that \<^verbatim>\<open>on\<close> returned, with the
  wallet whose \<^verbatim>\<open>change\<close> listener it removes; the listener is attached from the moment
  \<^verbatim>\<open>on\<close> returns until that function returns (a call that throws changes nothing at
  the wallet). \<open>registryListeners\<close> counts the register/unregister handler pairs attached
  to the registry, \<open>documentListeners\<close> lists the containers whose click/keydown handler
  pairs are attached to the document.
\<close>

record state =
  registry :: "wallet list"
  localStorage :: "(string \<rightharpoonup> string) option"
  documentIds :: "string \<rightharpoonup> container"
  domTree :: "container \<rightharpoonup> widget_dom"
  elements :: "container option"
  mountedContainer :: "container option"
  selectedWallet :: "wallet option"
  selectedAccount :: "account option"
  isConnecting :: bool
  walletEventsUnsubscribe :: "subscription option"
  registryListeners :: nat
  documentListeners :: "container list"
  bridge :: "bridge_state list"
  capabilityCalls :: "capability_call list"
  console :: "console_entry list"

definition initialState ::
  "wallet list \<Rightarrow> (string \<rightharpoonup> string) option \<Rightarrow> (string \<rightharpoonup> container) \<Rightarrow> state" where
  "initialState ws st ids =
     \<lparr>registry = ws, localStorage = st, documentIds = ids, domTree = Map.empty,
      elements = None, mountedContainer = None, selectedWallet = None,
      selectedAccount = None, isConnecting = False, walletEventsUnsubscribe = None,
      registryListeners = 0, documentListeners = [], bridge = [],
      capabilityCalls = [], console = []\<rparr>"

definition getConnectableWallets :: "comparator \<Rightarrow> state \<Rightarrow> wallet list" where
  "getConnectableWallets lc s = sortByName lc (filter canConnect (registry s))"

text \<open>Storage errors are swallowed: without storage nothing is written.\<close>

definition persistPreferredWallet :: "wallet option \<Rightarrow> state \<Rightarrow> state" where
  "persistPreferredWallet wo s =
     (case localStorage s of
        None \<Rightarrow> s
      | Some m \<Rightarrow>
          (case wo of
             Some w \<Rightarrow>
               s\<lparr>localStorage := Some (m(PREFERRED_WALLET_KEY \<mapsto> getWalletIdentifier (Some w)))\<rparr>
           | None \<Rightarrow> s\<lparr>localStorage := Some (m(PREFERRED_WALLET_KEY := None))\<rparr>))"

definition getPreferredWalletId :: "state \<Rightarrow> string option" where
  "getPreferredWalletId s =
     (case localStorage s of None \<Rightarrow> None | Some m \<Rightarrow> m PREFERRED_WALLET_KEY)"

text \<open>
  A synchronous function of the module either returns or throws; either way it leaves a
  state behind, the one reached when the error was thrown.
\<close>

datatype outcome = Returned state | Thrown js_error state

fun outcomeState :: "outcome \<Rightarrow> state" where
  "outcomeState (Returned s) = s"
| "outcomeState (Thrown e s) = s"

text \<open>
  \<^verbatim>\<open>cleanupWalletEvents\<close> calls the stored function and clears the variable after it
  returned; when the call throws, the variable keeps the function.
\<close>

definition cleanupWalletEvents :: "state \<Rightarrow> outcome" where
  "cleanupWalletEvents s =
     (case walletEventsUnsubscribe s of
        None \<Rightarrow> Returned s
      | Some u \<Rightarrow>
          (case subscription_unsubscribe u of
             UnsubscribeThrows e \<Rightarrow> Thrown e s
           | Unsubscribes \<Rightarrow> Returned (s\<lparr>walletEventsUnsubscribe := None\<rparr>)))"

text \<open>Every DOM update is guarded by the element variables being set.\<close>

definition updateElements :: "(widget_dom \<Rightarrow> widget_dom) \<Rightarrow> state \<Rightarrow> state" where
  "updateElements f s =
     (case elements s of
        None \<Rightarrow> s
      | Some c \<Rightarrow>
          (case domTree s c of
             None \<Rightarrow> s
           | Some d \<Rightarrow> s\<lparr>domTree := (domTree s)(c \<mapsto> f d)\<rparr>))"

definition closeWalletPicker :: "state \<Rightarrow> state" where
  "closeWalletPicker s = updateElements (\<lambda>d. d\<lparr>picker_hidden := True\<rparr>) s"



text \<open>
  Modelled from the spec: \<^verbatim>\<open>updateWalletBridgeState\<close> of \<^verbatim>\<open>wallet-state.js\<close> is not
  among the sources. The bridge is the publication point through which the rest of the
  application observes the connection state; each call is kept in the order it was made.
\<close>

definition updateWalletBridgeState :: "bridge_state \<Rightarrow> state \<Rightarrow> state" where
  "updateWalletBridgeState b s = s\<lparr>bridge := bridge s @ [b]\<rparr>"

definition syncBridgeState :: "state \<Rightarrow> state" where
  "syncBridgeState s =
     (case (selectedWallet s, selectedAccount s) of
        (Some w, Some a) \<Rightarrow>
          updateWalletBridgeState
            \<lparr>bridge_wallet = Some w, bridge_account = Some a,
             bridge_status = StatusConnected, bridge_disconnect = True,
             bridge_signAndExecute = Some (w, a)\<rparr> s
      | _ \<Rightarrow>
          updateWalletBridgeState
            \<lparr>bridge_wallet = None, bridge_account = None,
             bridge_status = (if isConnecting s then StatusConnecting else StatusDisconnected),
             bridge_disconnect = False, bridge_signAndExecute = None\<rparr> s)"

definition refreshButtonUi :: "state \<Rightarrow> state" where
  "refreshButtonUi s =
     updateElements
       (\<lambda>d. (if isConnecting s then d\<lparr>button_text := LabelConnecting, button_disabled := True\<rparr>
              else (case selectedAccount s of
                      Some a \<Rightarrow>
                        d\<lparr>button_text := LabelAddress (truncateAddress (account_address a)),
                          button_disabled := False\<rparr>
                    | None \<Rightarrow> d\<lparr>button_text := LabelConnect, button_disabled := False\<rparr>))
             \<lparr>disconnect_hidden := (selectedAccount s = None)\<rparr>) s"

definition renderWalletList :: "comparator \<Rightarrow> state \<Rightarrow> state" where
  "renderWalletList lc s =
     updateElements
       (\<lambda>d. d\<lparr>wallet_list :=
               (case getConnectableWallets lc s of
                  [] \<Rightarrow> [EmptyStateMessage]
                | ws \<Rightarrow>
                    map (\<lambda>w. WalletOption w
                           (selectedWallet s \<noteq> None \<and>
                            getWalletIdentifier (selectedWallet s) = getWalletIdentifier (Some w)))
                        ws)\<rparr>) s"

section \<open>Wallet events\<close>

text \<open>
  \<^verbatim>\<open>subscribeToWalletEvents\<close> drops the previous listener first and attaches a new one
  only when the wallet has the events feature with its \<^verbatim>\<open>on\<close> method. It throws when
  the previous function throws (nothing is changed then) and when \<^verbatim>\<open>on\<close> throws (the
  previous listener is gone by then).
\<close>

definition subscribeToWalletEvents :: "wallet \<Rightarrow> state \<Rightarrow> outcome" where
  "subscribeToWalletEvents w s =
     (case cleanupWalletEvents s of
        Thrown e t \<Rightarrow> Thrown e t
      | Returned s1 \<Rightarrow>
          if hasFeature w ''standard:events'' then
            (case wallet_events_on w of
               None \<Rightarrow> Returned s1
             | Some (OnThrows e) \<Rightarrow> Thrown e s1
             | Some (OnReturns u) \<Rightarrow>
                 Returned (s1\<lparr>walletEventsUnsubscribe :=
                   Some \<lparr>subscription_wallet = w, subscription_unsubscribe = u\<rparr>\<rparr>))
          else Returned s1)"

text \<open>
  The listener attached for wallet \<open>w\<close>, called with the \<^verbatim>\<open>accounts\<close> field of the event
  (\<open>None\<close> when the event carries none: \<^verbatim>\<open>accounts ?? wallet.accounts ?? []\<close>).
\<close>

definition walletChangeListener ::
  "comparator \<Rightarrow> wallet \<Rightarrow> account list option \<Rightarrow> state \<Rightarrow> state" where
  "walletChangeListener lc w accts s =
     (if selectedWallet s = None \<or>
         getWalletIdentifier (Some w) \<noteq> getWalletIdentifier (selectedWallet s)
      then s
      else
        (case getPreferredAccount (case accts of Some as \<Rightarrow> as | None \<Rightarrow> wallet_accounts w) of
           Some nextAccount \<Rightarrow>
             syncBridgeState (renderWalletList lc (refreshButtonUi
               (s\<lparr>selectedAccount := Some nextAccount\<rparr>)))
         | None \<Rightarrow>
             syncBridgeState (renderWalletList lc (refreshButtonUi
               (persistPreferredWallet None
                 (s\<lparr>selectedWallet := None, selectedAccount := None\<rparr>))))))"

text \<open>A \<^verbatim>\<open>change\<close> event of wallet \<open>w\<close> reaches the module only through an attached listener.\<close>

definition walletChangeEvent ::
  "comparator \<Rightarrow> wallet \<Rightarrow> account list option \<Rightarrow> state \<Rightarrow> state" where
  "walletChangeEvent lc w accts s =
     (case walletEventsUnsubscribe s of
        None \<Rightarrow> s
      | Some u \<Rightarrow>
          if subscription_wallet u = w then walletChangeListener lc w accts s else s)"

section \<open>Connecting and disconnecting\<close>

text \<open>
  An asynchronous function is split at its \<^verbatim>\<open>await\<close>: the first half runs up to the
  capability call and either completes or is left waiting; the second half takes what
  the capability settled with, and the variables the first half captured. \<open>Threw\<close> is a
  promise rejected with an error, which the caller would see.
\<close>

datatype async_result = Completed state | Waiting state | Threw js_error state

datatype connect_outcome =
    ConnectRejected js_error
  | ConnectResolved "account list option"

definition connectFinally :: "comparator \<Rightarrow> state \<Rightarrow> state" where
  "connectFinally lc s =
     syncBridgeState (renderWalletList lc (refreshButtonUi (s\<lparr>isConnecting := False\<rparr>)))"

definition connectCatch :: "js_error \<Rightarrow> state \<Rightarrow> state" where
  "connectCatch e s = s\<lparr>console := console s @ [ConsoleError ''Wallet connection failed:'' e]\<rparr>"

text \<open>
  The first half of \<^verbatim>\<open>connectToWallet\<close>. A wallet without the connect feature makes
  \<^verbatim>\<open>connectFeature.connect()\<close> a TypeError inside the \<^verbatim>\<open>try\<close> block, so the attempt ends at
  once, with no capability invoked. The argument \<^verbatim>\<open>persistSelection\<close> is read only after
  the \<^verbatim>\<open>await\<close>, so it is an argument of the second half.
\<close>

definition connectToWallet :: "comparator \<Rightarrow> wallet option \<Rightarrow> state \<Rightarrow> async_result" where
  "connectToWallet lc wo s =
     (case wo of
        None \<Rightarrow> Completed s
      | Some w \<Rightarrow>
          if isConnecting s then Completed s
          else
            (let s1 = syncBridgeState (refreshButtonUi (s\<lparr>isConnecting := True\<rparr>))
             in if hasFeature w ''standard:connect''
                then Waiting (s1\<lparr>capabilityCalls := capabilityCalls s1 @ [ConnectCall w]\<rparr>)
                else Completed (connectFinally lc
                       (connectCatch (TypeError ''Cannot read properties of undefined'') s1))))"

text \<open>
  The rest of the \<^verbatim>\<open>try\<close> block, after the capability settled:
  \<^verbatim>\<open>connectResult?.accounts || wallet.accounts\<close> takes the wallet's own list only when the
  result carries no list (an empty array is truthy). The selection and the preference are
  written before the wallet's events are subscribed to, all inside the \<^verbatim>\<open>try\<close> block: an
  error thrown by the subscription reaches the \<^verbatim>\<open>catch\<close> block with them written.
\<close>

definition connectTry ::
  "wallet \<Rightarrow> bool \<Rightarrow> connect_outcome \<Rightarrow> state \<Rightarrow> outcome" where
  "connectTry w persistSelection out s =
     (case out of
        ConnectRejected e \<Rightarrow> Thrown e s
      | ConnectResolved r \<Rightarrow>
          (case getPreferredAccount (case r of Some as \<Rightarrow> as | None \<Rightarrow> wallet_accounts w) of
             None \<Rightarrow>
               Thrown
                 (Error (''Wallet '' @ wallet_name w @ '' did not return an authorized account.'')) s
           | Some a \<Rightarrow>
               (let s1 = s\<lparr>selectedWallet := Some w, selectedAccount := Some a\<rparr>;
                    s2 = (if persistSelection then persistPreferredWallet (Some w) s1 else s1)
                in (case subscribeToWalletEvents w s2 of
                      Thrown e t \<Rightarrow> Thrown e t
                    | Returned s3 \<Rightarrow> Returned (closeWalletPicker s3)))))"

definition connectToWalletResume ::
  "comparator \<Rightarrow> wallet \<Rightarrow> bool \<Rightarrow> connect_outcome \<Rightarrow> state \<Rightarrow> async_result" where
  "connectToWalletResume lc w persistSelection out s =
     (case connectTry w persistSelection out s of
        Thrown e t \<Rightarrow> Completed (connectFinally lc (connectCatch e t))
      | Returned s' \<Rightarrow> Completed (connectFinally lc s'))"

text \<open>
  The \<^verbatim>\<open>finally\<close> block of \<^verbatim>\<open>disconnectWallet\<close> begins with \<^verbatim>\<open>cleanupWalletEvents\<close>: an
  error thrown there leaves the block, and the promise of \<^verbatim>\<open>disconnectWallet\<close> is
  rejected with it.
\<close>

definition disconnectFinally :: "comparator \<Rightarrow> state \<Rightarrow> async_result" where
  "disconnectFinally lc s =
     (case cleanupWalletEvents s of
        Thrown e t \<Rightarrow> Threw e t
      | Returned s1 \<Rightarrow>
          Completed (syncBridgeState (renderWalletList lc (refreshButtonUi (closeWalletPicker
            (persistPreferredWallet None
              (s1\<lparr>selectedWallet := None, selectedAccount := None\<rparr>)))))))"

definition disconnectWallet :: "comparator \<Rightarrow> state \<Rightarrow> async_result" where
  "disconnectWallet lc s =
     (case selectedWallet s of
        None \<Rightarrow> Completed s
      | Some w \<Rightarrow>
          if hasFeature w ''standard:disconnect'' \<and> wallet_disconnect w
          then Waiting (s\<lparr>capabilityCalls := capabilityCalls s @ [DisconnectCall w]\<rparr>)
          else disconnectFinally lc s)"

text \<open>The capability settled: \<open>Some e\<close> when it rejected with \<open>e\<close>, which is only warned about.\<close>

definition disconnectWalletResume ::
  "comparator \<Rightarrow> js_error option \<Rightarrow> state \<Rightarrow> async_result" where
  "disconnectWalletResume lc out s =
     (case out of
        Some e \<Rightarrow>
          disconnectFinally lc
            (s\<lparr>console := console s @ [ConsoleWarn ''Wallet disconnect failed:'' (Some e)]\<rparr>)
      | None \<Rightarrow> disconnectFinally lc s)"

section \<open>Registry events, reconnection and mounting\<close>

text \<open>The state an asynchronous call leaves behind when its promise is dropped (\<^verbatim>\<open>void\<close>).\<close>

fun stateOf :: "async_result \<Rightarrow> state" where
  "stateOf (Completed s) = s"
| "stateOf (Waiting s) = s"
| "stateOf (Threw e s) = s"

text \<open>An empty stored identifier is falsy, like a missing one. Reconnection does not persist.\<close>

definition attemptAutoReconnect :: "comparator \<Rightarrow> state \<Rightarrow> async_result" where
  "attemptAutoReconnect lc s =
     (case getPreferredWalletId s of
        None \<Rightarrow> Completed s
      | Some preferredWalletId \<Rightarrow>
          if preferredWalletId = '''' \<or> selectedWallet s \<noteq> None \<or> isConnecting s
          then Completed s
          else
            (case find (\<lambda>candidate. getWalletIdentifier (Some candidate) = preferredWalletId)
                    (getConnectableWallets lc s) of
               None \<Rightarrow> Completed s
             | Some w \<Rightarrow> connectToWallet lc (Some w) s))"

text \<open>
  The two callers of \<^verbatim>\<open>connectToWallet\<close> fix \<^verbatim>\<open>persistSelection\<close>: the click listener of
  a wallet's entry in the list passes \<^verbatim>\<open>true\<close>, the automatic reconnection \<^verbatim>\<open>false\<close>.
\<close>

definition walletOptionClick :: "comparator \<Rightarrow> wallet \<Rightarrow> state \<Rightarrow> async_result" where
  "walletOptionClick lc w s = connectToWallet lc (Some w) s"

definition walletOptionClickResume ::
  "comparator \<Rightarrow> wallet \<Rightarrow> connect_outcome \<Rightarrow> state \<Rightarrow> async_result" where
  "walletOptionClickResume lc w out s = connectToWalletResume lc w True out s"



definition unregisterHandler :: "comparator \<Rightarrow> state \<Rightarrow> outcome" where
  "unregisterHandler lc s =
     (if selectedWallet s \<noteq> None \<and>
         \<not> list_ex (\<lambda>w. getWalletIdentifier (Some w) = getWalletIdentifier (selectedWallet s))
              (getConnectableWallets lc s)
      then
        (case cleanupWalletEvents s of
           Thrown e t \<Rightarrow> Thrown e t
         | Returned s1 \<Rightarrow>
             Returned (refreshButtonUi (renderWalletList lc
               (syncBridgeState (persistPreferredWallet None
                 (s1\<lparr>selectedWallet := None, selectedAccount := None\<rparr>))))))
      else Returned (refreshButtonUi (renderWalletList lc s)))"


definition unregisterEvent :: "comparator \<Rightarrow> wallet \<Rightarrow> state \<Rightarrow> state" where
  "unregisterEvent lc w s =
     ((\<lambda>t. outcomeState (unregisterHandler lc t)) ^^ registryListeners s)
       (s\<lparr>registry := removeAll w (registry s)\<rparr>)"

definition attachGlobalHandlers :: "container \<Rightarrow> state \<Rightarrow> state" where
  "attachGlobalHandlers c s = s\<lparr>documentListeners := documentListeners s @ [c]\<rparr>"





datatype target = TargetId string | TargetElement "container option"

datatype handle = NoopHandle | UnmountHandle container

definition initialMarkup :: widget_dom where
  "initialMarkup =
     \<lparr>button_text = LabelConnect, button_disabled = False, picker_hidden = True,
      wallet_list = [], disconnect_hidden = True\<rparr>"

definition mountWalletConnectButton ::
  "comparator \<Rightarrow> target \<Rightarrow> state \<Rightarrow> handle option \<times> state" where
  "mountWalletConnectButton lc tgt s =
     (case (case tgt of TargetId i \<Rightarrow> documentIds s i | TargetElement c \<Rightarrow> c) of
        None \<Rightarrow>
          (None, s\<lparr>console := console s @ [ConsoleWarn ''Wallet connect container not found'' None]\<rparr>)
      | Some c \<Rightarrow>
          if mountedContainer s = Some c then (Some NoopHandle, s)
          else
            (let s1 = s\<lparr>mountedContainer := Some c,
                        domTree := (domTree s)(c \<mapsto> initialMarkup),
                        elements := Some c\<rparr>;
                 s2 = s1\<lparr>registryListeners := Suc (registryListeners s1)\<rparr>;
                 s3 = attachGlobalHandlers c s2;
                 s4 = syncBridgeState (refreshButtonUi (renderWalletList lc s3))
             in (Some (UnmountHandle c), stateOf (attemptAutoReconnect lc s4))))"

definition unmount :: "handle \<Rightarrow> state \<Rightarrow> outcome" where
  "unmount h s =
     (case h of
        NoopHandle \<Rightarrow> Returned s
      | UnmountHandle c \<Rightarrow>
          (case cleanupWalletEvents s of
             Thrown e t \<Rightarrow> Thrown e t
           | Returned s1 \<Rightarrow>
               Returned (if mountedContainer s1 = Some c then s1\<lparr>mountedContainer := None\<rparr>
                         else s1)))"

section \<open>The signer\<close>

text \<open>
  The signer talks to the wallet helpers and to the RPC client. What they answer is given
  by \<open>sign_env\<close>; what they were asked is returned as the list of calls, in order.
\<close>

record transaction =
  tx_sender :: "string option"
  tx_data :: string

record sign_request =
  req_transaction :: transaction
  req_chain :: "string option"

record signed_transaction =
  signed_bytes :: string
  signed_signature :: string

record sign_env =
  rpcUrl :: string
  signTransactionResult :: "js_error + signed_transaction"
  executeTransactionBlockResult :: "js_error + string"
  signAndExecuteTransactionResult :: "js_error + string"
  waitForTransactionResult :: "js_error + string"

datatype external_call =
    NewCoreClient string
  | SetSenderIfNotSet string
  | WalletSignTransaction wallet transaction account string
  | ClientExecuteTransactionBlock string string bool bool string
  | WalletSignAndExecuteTransaction wallet transaction account string
  | ClientWaitForTransaction string bool bool

definition setSenderIfNotSet :: "string \<Rightarrow> transaction \<Rightarrow> transaction" where
  "setSenderIfNotSet addr tx =
     (case tx_sender tx of None \<Rightarrow> tx\<lparr>tx_sender := Some addr\<rparr> | Some _ \<Rightarrow> tx)"

definition getSigner ::
  "wallet option \<Rightarrow> account option \<Rightarrow> sign_env \<Rightarrow> sign_request \<Rightarrow>
     (js_error + string) \<times> external_call list" where
  "getSigner wo ao env req =
     (case (wo, ao) of
        (Some w, Some a) \<Rightarrow>
          (let chain = (case req_chain req of None \<Rightarrow> SUI_MAINNET_CHAIN | Some c \<Rightarrow> c);
               tx = setSenderIfNotSet (account_address a) (req_transaction req);
               setup = [NewCoreClient (rpcUrl env), SetSenderIfNotSet (account_address a)]
           in if hasFeature w ''sui:signTransaction'' \<or> hasFeature w ''sui:signTransactionBlock''
              then
                (case signTransactionResult env of
                   Inl e \<Rightarrow> (Inl e, setup @ [WalletSignTransaction w tx a chain])
                 | Inr signedTx \<Rightarrow>
                     (executeTransactionBlockResult env,
                      setup @ [WalletSignTransaction w tx a chain,
                               ClientExecuteTransactionBlock (signed_bytes signedTx)
                                 (signed_signature signedTx) True True ''WaitForLocalExecution'']))
              else if hasFeature w ''sui:signAndExecuteTransaction'' \<or>
                      hasFeature w ''sui:signAndExecuteTransactionBlock''
              then
                (case signAndExecuteTransactionResult env of
                   Inl e \<Rightarrow> (Inl e, setup @ [WalletSignAndExecuteTransaction w tx a chain])
                 | Inr digest \<Rightarrow>
                     (waitForTransactionResult env,
                      setup @ [WalletSignAndExecuteTransaction w tx a chain,
                               ClientWaitForTransaction digest True True]))
              else
                (Inl (Error (''Wallet '' @ wallet_name w @
                             '' does not support transaction signing.'')), setup))
      | _ \<Rightarrow> (Inl (Error ''Wallet not connected''), []))"

section \<open>Sample wallets and states\<close>

text \<open>Concrete inputs on which the statements below are evaluated.\<close>

definition byLength :: comparator where
  "byLength a b = int (length a) - int (length b)"

definition mainnetAccount :: account where
  "mainnetAccount = \<lparr>account_address = ''0xabc'', account_chains = Some [''sui:mainnet'']\<rparr>"

definition testnetAccount :: account where
  "testnetAccount = \<lparr>account_address = ''0xdef'', account_chains = Some [''sui:testnet'']\<rparr>"

definition walletAlpha :: wallet where
  "walletAlpha =
     \<lparr>wallet_id = None, wallet_name = ''Alpha'',
      wallet_features = [''standard:connect'', ''standard:events'', ''sui:signTransaction''],
      wallet_accounts = [testnetAccount, mainnetAccount],
      wallet_events_on = Some (OnReturns Unsubscribes), wallet_disconnect = False\<rparr>"

definition walletBeta :: wallet where
  "walletBeta =
     \<lparr>wallet_id = Some ''beta-id'', wallet_name = ''Beta'',
      wallet_features = [''standard:connect'', ''sui:signAndExecuteTransaction''],
      wallet_accounts = [], wallet_events_on = None, wallet_disconnect = False\<rparr>"

definition walletGamma :: wallet where
  "walletGamma =
     \<lparr>wallet_id = None, wallet_name = ''Gam'',
      wallet_features = [''standard:connect''], wallet_accounts = [],
      wallet_events_on = None, wallet_disconnect = False\<rparr>"

text \<open>A wallet whose \<^verbatim>\<open>on\<close> method throws.\<close>

definition walletDelta :: wallet where
  "walletDelta =
     \<lparr>wallet_id = Some ''delta-id'', wallet_name = ''Delta'',
      wallet_features = [''standard:connect'', ''standard:events'', ''sui:signTransaction''],
      wallet_accounts = [mainnetAccount],
      wallet_events_on = Some (OnThrows (CapabilityError ''events unavailable'')),
      wallet_disconnect = False\<rparr>"

definition freshState :: state where
  "freshState =
     initialState [walletAlpha, walletGamma, walletBeta]
       (Some [PREFERRED_WALLET_KEY \<mapsto> ''Alpha'']) Map.empty"

definition connectedAlpha :: state where
  "connectedAlpha =
     freshState\<lparr>selectedWallet := Some walletAlpha, selectedAccount := Some mainnetAccount,
                walletEventsUnsubscribe :=
                  Some \<lparr>subscription_wallet = walletAlpha,
                        subscription_unsubscribe = Unsubscribes\<rparr>\<rparr>"

text \<open>
  The widget mounted into container \<open>0\<close> with \<^verbatim>\<open>Alpha\<close> stored as the preference: the
  mount starts the automatic reconnection, which is then settled with the wallet's own
  account list.
\<close>

definition mountedFresh :: state where
  "mountedFresh = snd (mountWalletConnectButton byLength (TargetElement (Some 0)) freshState)"

definition mountedAlpha :: state where
  "mountedAlpha =
     stateOf (connectToWalletResume byLength walletAlpha False (ConnectResolved None) mountedFresh)"

text \<open>
  A wallet whose \<^verbatim>\<open>on\<close> method returns a function that throws when it is called, and
  the widget mounted and connected to it by a click on its entry.
\<close>

definition walletSigma :: wallet where
  "walletSigma =
     \<lparr>wallet_id = None, wallet_name = ''Sigma'',
      wallet_features = [''standard:connect'', ''standard:events'', ''sui:signTransaction''],
      wallet_accounts = [mainnetAccount],
      wallet_events_on =
        Some (OnReturns (UnsubscribeThrows (CapabilityError ''listener unknown''))),
      wallet_disconnect = False\<rparr>"

definition mountedSigma :: state where
  "mountedSigma =
     stateOf (connectToWalletResume byLength walletSigma True (ConnectResolved None)
       (stateOf (connectToWallet byLength (Some walletSigma)
         (snd (mountWalletConnectButton byLength (TargetElement (Some 0))
           (initialState [walletSigma] (Some Map.empty) Map.empty))))))"

definition sampleEnv :: sign_env where
  "sampleEnv =
     \<lparr>rpcUrl = ''https://rpc.example'',
      signTransactionResult = Inr \<lparr>signed_bytes = ''bytes'', signed_signature = ''sig''\<rparr>,
      executeTransactionBlockResult = Inr ''executed'',
      signAndExecuteTransactionResult = Inr ''digest'',
      waitForTransactionResult = Inr ''finalized''\<rparr>"

definition sampleRequest :: sign_request where
  "sampleRequest =
     \<lparr>req_transaction = \<lparr>tx_sender = None, tx_data = ''payload''\<rparr>, req_chain = None\<rparr>"


definition rejected :: connect_outcome where
  "rejected = ConnectRejected (CapabilityError ''User rejected the request'')"

section \<open>Predicates of the statements\<close>

text \<open>The stored unsubscribe function, if there is one, returns when it is called.\<close>

definition unsubscribeReturns :: "state \<Rightarrow> bool" where
  "unsubscribeReturns s =
     (case walletEventsUnsubscribe s of
        None \<Rightarrow> True
      | Some u \<Rightarrow> subscription_unsubscribe u = Unsubscribes)"

text \<open>An account is selected only together with a wallet.\<close>

definition selectionInvariant :: "state \<Rightarrow> bool" where
  "selectionInvariant s = (selectedAccount s \<noteq> None \<longrightarrow> selectedWallet s \<noteq> None)"

text \<open>
  A connect attempt fails when the capability rejects, or when the account list it
  leaves to choose from is empty; \<open>e\<close> is the error raised in the \<^verbatim>\<open>try\<close> block.
\<close>

definition connectFails :: "wallet \<Rightarrow> connect_outcome \<Rightarrow> js_error \<Rightarrow> bool" where
  "connectFails w out e =
     (case out of
        ConnectRejected x \<Rightarrow> e = x
      | ConnectResolved r \<Rightarrow>
          (case r of Some as \<Rightarrow> as | None \<Rightarrow> wallet_accounts w) = [] \<and>
          e = Error (''Wallet '' @ wallet_name w @ '' did not return an authorized account.''))"

section \<open>Frame lemmas\<close>

lemma updateElements_frame [simp]:
  "registry (updateElements f s) = registry s"
  "localStorage (updateElements f s) = localStorage s"
  "documentIds (updateElements f s) = documentIds s"
  "elements (updateElements f s) = elements s"
  "mountedContainer (updateElements f s) = mountedContainer s"
  "selectedWallet (updateElements f s) = selectedWallet s"
  "selectedAccount (updateElements f s) = selectedAccount s"
  "isConnecting (updateElements f s) = isConnecting s"
  "walletEventsUnsubscribe (updateElements f s) = walletEventsUnsubscribe s"
  "registryListeners (updateElements f s) = registryListeners s"
  "documentListeners (updateElements f s) = documentListeners s"
  "bridge (updateElements f s) = bridge s"
  "capabilityCalls (updateElements f s) = capabilityCalls s"
  "console (updateElements f s) = console s"
  by (simp_all add: updateElements_def split: option.splits)

lemma updateElements_domTree_dom [simp]:
  "dom (domTree (updateElements f s)) = dom (domTree s)"
  by (auto simp: updateElements_def split: option.splits)

lemma refreshButtonUi_frame [simp]:
  "registry (refreshButtonUi s) = registry s"
  "localStorage (refreshButtonUi s) = localStorage s"
  "documentIds (refreshButtonUi s) = documentIds s"
  "elements (refreshButtonUi s) = elements s"
  "mountedContainer (refreshButtonUi s) = mountedContainer s"
  "selectedWallet (refreshButtonUi s) = selectedWallet s"
  "selectedAccount (refreshButtonUi s) = selectedAccount s"
  "isConnecting (refreshButtonUi s) = isConnecting s"
  "walletEventsUnsubscribe (refreshButtonUi s) = walletEventsUnsubscribe s"
  "registryListeners (refreshButtonUi s) = registryListeners s"
  "documentListeners (refreshButtonUi s) = documentListeners s"
  "bridge (refreshButtonUi s) = bridge s"
  "capabilityCalls (refreshButtonUi s) = capabilityCalls s"
  "console (refreshButtonUi s) = console s"
  "dom (domTree (refreshButtonUi s)) = dom (domTree s)"
  by (simp_all add: refreshButtonUi_def)

lemma renderWalletList_frame [simp]:
  "registry (renderWalletList lc s) = registry s"
  "localStorage (renderWalletList lc s) = localStorage s"
  "documentIds (renderWalletList lc s) = documentIds s"
  "elements (renderWalletList lc s) = elements s"
  "mountedContainer (renderWalletList lc s) = mountedContainer s"
  "selectedWallet (renderWalletList lc s) = selectedWallet s"
  "selectedAccount (renderWalletList lc s) = selectedAccount s"
  "isConnecting (renderWalletList lc s) = isConnecting s"
  "walletEventsUnsubscribe (renderWalletList lc s) = walletEventsUnsubscribe s"
  "registryListeners (renderWalletList lc s) = registryListeners s"
  "documentListeners (renderWalletList lc s) = documentListeners s"
  "bridge (renderWalletList lc s) = bridge s"
  "capabilityCalls (renderWalletList lc s) = capabilityCalls s"
  "console (renderWalletList lc s) = console s"
  "dom (domTree (renderWalletList lc s)) = dom (domTree s)"
  by (simp_all add: renderWalletList_def)

lemma closeWalletPicker_frame [simp]:
  "registry (closeWalletPicker s) = registry s"
  "localStorage (closeWalletPicker s) = localStorage s"
  "documentIds (closeWalletPicker s) = documentIds s"
  "elements (closeWalletPicker s) = elements s"
  "mountedContainer (closeWalletPicker s) = mountedContainer s"
  "selectedWallet (closeWalletPicker s) = selectedWallet s"
  "selectedAccount (closeWalletPicker s) = selectedAccount s"
  "isConnecting (closeWalletPicker s) = isConnecting s"
  "walletEventsUnsubscribe (closeWalletPicker s) = walletEventsUnsubscribe s"
  "registryListeners (closeWalletPicker s) = registryListeners s"
  "documentListeners (closeWalletPicker s) = documentListeners s"
  "bridge (closeWalletPicker s) = bridge s"
  "capabilityCalls (closeWalletPicker s) = capabilityCalls s"
  "console (closeWalletPicker s) = console s"
  "dom (domTree (closeWalletPicker s)) = dom (domTree s)"
  by (simp_all add: closeWalletPicker_def)

lemma syncBridgeState_frame [simp]:
  "registry (syncBridgeState s) = registry s"
  "localStorage (syncBridgeState s) = localStorage s"
  "documentIds (syncBridgeState s) = documentIds s"
  "domTree (syncBridgeState s) = domTree s"
  "elements (syncBridgeState s) = elements s"
  "mountedContainer (syncBridgeState s) = mountedContainer s"
  "selectedWallet (syncBridgeState s) = selectedWallet s"
  "selectedAccount (syncBridgeState s) = selectedAccount s"
  "isConnecting (syncBridgeState s) = isConnecting s"
  "walletEventsUnsubscribe (syncBridgeState s) = walletEventsUnsubscribe s"
  "registryListeners (syncBridgeState s) = registryListeners s"
  "documentListeners (syncBridgeState s) = documentListeners s"
  "capabilityCalls (syncBridgeState s) = capabilityCalls s"
  "console (syncBridgeState s) = console s"
  by (simp_all add: syncBridgeState_def updateWalletBridgeState_def split: option.splits)

lemma syncBridgeState_length [simp]:
  "length (bridge (syncBridgeState s)) = Suc (length (bridge s))"
  by (simp add: syncBridgeState_def updateWalletBridgeState_def split: option.splits)

lemma persistPreferredWallet_frame [simp]:
  "registry (persistPreferredWallet wo s) = registry s"
  "documentIds (persistPreferredWallet wo s) = documentIds s"
  "domTree (persistPreferredWallet wo s) = domTree s"
  "elements (persistPreferredWallet wo s) = elements s"
  "mountedContainer (persistPreferredWallet wo s) = mountedContainer s"
  "selectedWallet (persistPreferredWallet wo s) = selectedWallet s"
  "selectedAccount (persistPreferredWallet wo s) = selectedAccount s"
  "isConnecting (persistPreferredWallet wo s) = isConnecting s"
  "walletEventsUnsubscribe (persistPreferredWallet wo s) = walletEventsUnsubscribe s"
  "registryListeners (persistPreferredWallet wo s) = registryListeners s"
  "documentListeners (persistPreferredWallet wo s) = documentListeners s"
  "bridge (persistPreferredWallet wo s) = bridge s"
  "capabilityCalls (persistPreferredWallet wo s) = capabilityCalls s"
  "console (persistPreferredWallet wo s) = console s"
  by (simp_all add: persistPreferredWallet_def split: option.splits)

lemma getPreferredWalletId_ui [simp]:
  "getPreferredWalletId (updateElements f s) = getPreferredWalletId s"
  "getPreferredWalletId (refreshButtonUi s) = getPreferredWalletId s"
  "getPreferredWalletId (renderWalletList lc s) = getPreferredWalletId s"
  "getPreferredWalletId (closeWalletPicker s) = getPreferredWalletId s"
  "getPreferredWalletId (syncBridgeState s) = getPreferredWalletId s"
  by (simp_all add: getPreferredWalletId_def)

lemma getPreferredWalletId_cleared [simp]:
  "getPreferredWalletId (persistPreferredWallet None s) = None"
  by (simp add: getPreferredWalletId_def persistPreferredWallet_def split: option.splits)

section \<open>The first match of a search\<close>

lemma find_first_match:
  "find P xs = Some a \<Longrightarrow>
     \<exists>pre post. xs = pre @ a # post \<and> P a \<and> (\<forall>b\<in>set pre. \<not> P b)"
proof (induction xs)
  case Nil
  then show ?case by simp
next
  case (Cons x xs)
  show ?case
  proof (cases "P x")
    case True
    with Cons.prems have "a = x" by simp
    with True have "x # xs = [] @ a # xs \<and> P a \<and> (\<forall>b\<in>set []. \<not> P b)" by simp
    then show ?thesis by blast
  next
    case False
    with Cons.prems have "find P xs = Some a" by simp
    from Cons.IH [OF this] obtain pre post
      where "xs = pre @ a # post" "P a" "\<forall>b\<in>set pre. \<not> P b" by blast
    with False have "x # xs = (x # pre) @ a # post \<and> P a \<and> (\<forall>b\<in>set (x # pre). \<not> P b)"
      by simp
    then show ?thesis by blast
  qed
qed

section \<open>Connectable wallets\<close>

lemma mset_insertWallet: "mset (insertWallet lc w ws) = add_mset w (mset ws)"
  by (induction ws) simp_all

lemma set_insertWallet: "set (insertWallet lc w ws) = insert w (set ws)"
proof -
  have "set_mset (mset (insertWallet lc w ws)) = set_mset (add_mset w (mset ws))"
    by (simp only: mset_insertWallet)
  then show ?thesis by simp
qed

lemma sorted_insertWallet:
  assumes "consistentComparator lc"
  shows "sorted_wrt (nameOrder lc) ws \<Longrightarrow> sorted_wrt (nameOrder lc) (insertWallet lc w ws)"
proof (induction ws)
  case Nil
  then show ?case by simp
next
  case (Cons v vs)
  from assms have total: "\<And>a b. lc a b \<le> 0 \<or> lc b a \<le> 0"
    and trans: "\<And>a b c. lc a b \<le> 0 \<Longrightarrow> lc b c \<le> 0 \<Longrightarrow> lc a c \<le> 0"
    unfolding consistentComparator_def by blast+
  show ?case
  proof (cases "lc (wallet_name w) (wallet_name v) \<le> 0")
    case True
    have "\<forall>u\<in>set vs. nameOrder lc w u"
    proof
      fix u assume "u \<in> set vs"
      with Cons.prems have "lc (wallet_name v) (wallet_name u) \<le> 0"
        by (simp add: nameOrder_def)
      with True show "nameOrder lc w u"
        unfolding nameOrder_def by (rule trans)
    qed
    with True Cons.prems show ?thesis by (simp add: nameOrder_def)
  next
    case False
    with total [of "wallet_name w" "wallet_name v"] have "nameOrder lc v w"
      by (simp add: nameOrder_def)
    with False Cons show ?thesis by (simp add: set_insertWallet)
  qed
qed

lemma mset_sortByName: "mset (sortByName lc ws) = mset ws"
  by (induction ws) (simp_all add: sortByName_def mset_insertWallet)

lemma sorted_sortByName:
  "consistentComparator lc \<Longrightarrow> sorted_wrt (nameOrder lc) (sortByName lc ws)"
proof (induction ws)
  case Nil
  then show ?case by (simp add: sortByName_def)
next
  case (Cons w ws)
  then have "sorted_wrt (nameOrder lc) (insertWallet lc w (sortByName lc ws))"
    by (simp add: sorted_insertWallet)
  then show ?case by (simp add: sortByName_def)
qed

lemma set_getConnectableWallets:
  "set (getConnectableWallets lc s) = {w \<in> set (registry s). canConnect w}"
proof -
  have "set_mset (mset (getConnectableWallets lc s)) = set_mset (mset (filter canConnect (registry s)))"
    by (simp only: getConnectableWallets_def mset_sortByName)
  then show ?thesis by simp
qed

text \<open>
  C3. For every registry snapshot, the list of connectable wallets holds exactly the
  registered wallets that have the connect feature and one of the four signing features
  (each as often as the registry lists it), and it is sorted ascending by name under the
  locale comparison, for any comparison that is total and transitive.
\<close>

theorem getConnectableWallets_filtered_sorted:
  assumes "consistentComparator lc"
  shows "sorted_wrt (\<lambda>a b. lc (wallet_name a) (wallet_name b) \<le> 0) (getConnectableWallets lc s) \<and>
         mset (getConnectableWallets lc s) = mset (filter canConnect (registry s)) \<and>
         (\<forall>w. w \<in> set (getConnectableWallets lc s) \<longleftrightarrow>
               w \<in> set (registry s) \<and>
               ''standard:connect'' \<in> set (wallet_features w) \<and>
               (''sui:signTransaction'' \<in> set (wallet_features w) \<or>
                ''sui:signTransactionBlock'' \<in> set (wallet_features w) \<or>
                ''sui:signAndExecuteTransaction'' \<in> set (wallet_features w) \<or>
                ''sui:signAndExecuteTransactionBlock'' \<in> set (wallet_features w)))"
proof (intro conjI allI)
  have "sorted_wrt (nameOrder lc) (getConnectableWallets lc s)"
    using assms by (simp add: getConnectableWallets_def sorted_sortByName)
  then show "sorted_wrt (\<lambda>a b. lc (wallet_name a) (wallet_name b) \<le> 0) (getConnectableWallets lc s)"
    by (simp add: nameOrder_def [abs_def])
  show "mset (getConnectableWallets lc s) = mset (filter canConnect (registry s))"
    by (simp add: getConnectableWallets_def mset_sortByName)
  fix w
  show "w \<in> set (getConnectableWallets lc s) \<longleftrightarrow>
          w \<in> set (registry s) \<and>
          ''standard:connect'' \<in> set (wallet_features w) \<and>
          (''sui:signTransaction'' \<in> set (wallet_features w) \<or>
           ''sui:signTransactionBlock'' \<in> set (wallet_features w) \<or>
           ''sui:signAndExecuteTransaction'' \<in> set (wallet_features w) \<or>
           ''sui:signAndExecuteTransactionBlock'' \<in> set (wallet_features w))"
    by (simp add: set_getConnectableWallets canConnect_def hasFeature_def)
qed

theorem getConnectableWallets_filtered_sorted_witness:
  "consistentComparator byLength \<and>
   getConnectableWallets byLength freshState = [walletBeta, walletAlpha] \<and>
   sorted_wrt (\<lambda>a b. byLength (wallet_name a) (wallet_name b) \<le> 0) [walletBeta, walletAlpha] \<and>
   walletGamma \<notin> set (getConnectableWallets byLength freshState)"
proof -
  have h: "consistentComparator byLength"
    by (auto simp: consistentComparator_def byLength_def)
  have e: "getConnectableWallets byLength freshState = [walletBeta, walletAlpha]"
    by (simp add: getConnectableWallets_def sortByName_def canConnect_def hasFeature_def
          freshState_def initialState_def byLength_def
          walletAlpha_def walletBeta_def walletGamma_def)
  have g: "walletGamma \<noteq> walletBeta" "walletGamma \<noteq> walletAlpha"
    by (simp_all add: walletAlpha_def walletBeta_def walletGamma_def)
  from getConnectableWallets_filtered_sorted [OF h, of freshState] h e g
  show ?thesis by simp
qed

section \<open>The policy of the signer\<close>

text \<open>
  C1. The signer made for a wallet and an account throws, with no capability or client
  call made, when either is absent. Otherwise a wallet with one of the two sign-transaction
  features signs and then executes through the client, asking for effects and object
  changes and waiting for local execution, also when it has a sign-and-execute feature
  too; a wallet with only a sign-and-execute feature executes through the wallet and then
  waits for the transaction; any other wallet gets an error that names it.
\<close>

theorem getSigner_priority:
  "(wo = None \<or> ao = None \<longrightarrow>
      getSigner wo ao env req = (Inl (Error ''Wallet not connected''), [])) \<and>
   (wo = Some w \<and> ao = Some a \<longrightarrow>
      (let chain = (case req_chain req of None \<Rightarrow> ''sui:mainnet'' | Some c \<Rightarrow> c);
           tx = setSenderIfNotSet (account_address a) (req_transaction req);
           setup = [NewCoreClient (rpcUrl env), SetSenderIfNotSet (account_address a)];
           canSign = (''sui:signTransaction'' \<in> set (wallet_features w) \<or>
                      ''sui:signTransactionBlock'' \<in> set (wallet_features w));
           canSignAndExecute = (''sui:signAndExecuteTransaction'' \<in> set (wallet_features w) \<or>
                      ''sui:signAndExecuteTransactionBlock'' \<in> set (wallet_features w))
       in (canSign \<longrightarrow>
             getSigner wo ao env req =
               (case signTransactionResult env of
                  Inl e \<Rightarrow> (Inl e, setup @ [WalletSignTransaction w tx a chain])
                | Inr signedTx \<Rightarrow>
                    (executeTransactionBlockResult env,
                     setup @ [WalletSignTransaction w tx a chain,
                              ClientExecuteTransactionBlock (signed_bytes signedTx)
                                (signed_signature signedTx) True True ''WaitForLocalExecution'']))) \<and>
          (\<not> canSign \<and> canSignAndExecute \<longrightarrow>
             getSigner wo ao env req =
               (case signAndExecuteTransactionResult env of
                  Inl e \<Rightarrow> (Inl e, setup @ [WalletSignAndExecuteTransaction w tx a chain])
                | Inr digest \<Rightarrow>
                    (waitForTransactionResult env,
                     setup @ [WalletSignAndExecuteTransaction w tx a chain,
                              ClientWaitForTransaction digest True True]))) \<and>
          (\<not> canSign \<and> \<not> canSignAndExecute \<longrightarrow>
             getSigner wo ao env req =
               (Inl (Error (''Wallet '' @ wallet_name w @
                            '' does not support transaction signing.'')), setup))))"
  by (cases wo; cases ao)
     (simp_all add: getSigner_def Let_def hasFeature_def SUI_MAINNET_CHAIN_def
        split: sum.splits option.splits)

theorem getSigner_priority_witness:
  "Some walletAlpha = Some walletAlpha \<and> Some mainnetAccount = Some mainnetAccount \<and>
   ''sui:signTransaction'' \<in> set (wallet_features walletAlpha) \<and>
   getSigner (Some walletAlpha) (Some mainnetAccount) sampleEnv sampleRequest =
     (Inr ''executed'',
      [NewCoreClient ''https://rpc.example'', SetSenderIfNotSet ''0xabc'',
       WalletSignTransaction walletAlpha \<lparr>tx_sender = Some ''0xabc'', tx_data = ''payload''\<rparr>
         mainnetAccount ''sui:mainnet'',
       ClientExecuteTransactionBlock ''bytes'' ''sig'' True True ''WaitForLocalExecution''])"
  using getSigner_priority
          [of "Some walletAlpha" "Some mainnetAccount" sampleEnv sampleRequest
              walletAlpha mainnetAccount]
  by (simp add: Let_def setSenderIfNotSet_def sampleEnv_def sampleRequest_def
        walletAlpha_def mainnetAccount_def)

section \<open>What the bridge is told\<close>

text \<open>
  C5. A bridge publish adds one entry and changes nothing else. With a wallet and an
  account selected the entry carries both, the status \<^verbatim>\<open>connected\<close>, the disconnect
  function and the signer of that pair. Otherwise it carries no wallet, no account and
  neither function, and its status is \<^verbatim>\<open>connecting\<close> exactly when a connect attempt is
  in flight and \<^verbatim>\<open>disconnected\<close> exactly when none is.
\<close>

theorem syncBridgeState_reflects_selection:
  "\<exists>b. syncBridgeState s = s\<lparr>bridge := bridge s @ [b]\<rparr> \<and>
       (selectedWallet s \<noteq> None \<and> selectedAccount s \<noteq> None \<longrightarrow>
          bridge_wallet b = selectedWallet s \<and> bridge_account b = selectedAccount s \<and>
          bridge_status b = StatusConnected \<and> bridge_disconnect b \<and>
          bridge_signAndExecute b = Some (the (selectedWallet s), the (selectedAccount s))) \<and>
       (selectedWallet s = None \<or> selectedAccount s = None \<longrightarrow>
          bridge_wallet b = None \<and> bridge_account b = None \<and>
          \<not> bridge_disconnect b \<and> bridge_signAndExecute b = None \<and>
          (bridge_status b = StatusConnecting \<longleftrightarrow> isConnecting s) \<and>
          (bridge_status b = StatusDisconnected \<longleftrightarrow> \<not> isConnecting s))"
proof (rule exI [where x = "last (bridge (syncBridgeState s))"])
  show "syncBridgeState s = s\<lparr>bridge := bridge s @ [last (bridge (syncBridgeState s))]\<rparr> \<and>
       (selectedWallet s \<noteq> None \<and> selectedAccount s \<noteq> None \<longrightarrow>
          bridge_wallet (last (bridge (syncBridgeState s))) = selectedWallet s \<and>
          bridge_account (last (bridge (syncBridgeState s))) = selectedAccount s \<and>
          bridge_status (last (bridge (syncBridgeState s))) = StatusConnected \<and>
          bridge_disconnect (last (bridge (syncBridgeState s))) \<and>
          bridge_signAndExecute (last (bridge (syncBridgeState s))) =
            Some (the (selectedWallet s), the (selectedAccount s))) \<and>
       (selectedWallet s = None \<or> selectedAccount s = None \<longrightarrow>
          bridge_wallet (last (bridge (syncBridgeState s))) = None \<and>
          bridge_account (last (bridge (syncBridgeState s))) = None \<and>
          \<not> bridge_disconnect (last (bridge (syncBridgeState s))) \<and>
          bridge_signAndExecute (last (bridge (syncBridgeState s))) = None \<and>
          (bridge_status (last (bridge (syncBridgeState s))) = StatusConnecting \<longleftrightarrow> isConnecting s) \<and>
          (bridge_status (last (bridge (syncBridgeState s))) = StatusDisconnected \<longleftrightarrow>
             \<not> isConnecting s))"
    by (cases "selectedWallet s"; cases "selectedAccount s")
       (simp_all add: syncBridgeState_def updateWalletBridgeState_def)
qed

theorem syncBridgeState_reflects_selection_witness:
  "selectedWallet connectedAlpha \<noteq> None \<and> selectedAccount connectedAlpha \<noteq> None \<and>
   selectedWallet freshState = None \<and>
   bridge (syncBridgeState connectedAlpha) =
     [\<lparr>bridge_wallet = Some walletAlpha, bridge_account = Some mainnetAccount,
       bridge_status = StatusConnected, bridge_disconnect = True,
       bridge_signAndExecute = Some (walletAlpha, mainnetAccount)\<rparr>] \<and>
   bridge (syncBridgeState freshState) =
     [\<lparr>bridge_wallet = None, bridge_account = None,
       bridge_status = StatusDisconnected, bridge_disconnect = False,
       bridge_signAndExecute = None\<rparr>]"
  using syncBridgeState_reflects_selection [of connectedAlpha]
        syncBridgeState_reflects_selection [of freshState]
  by (simp add: syncBridgeState_def updateWalletBridgeState_def connectedAlpha_def
        freshState_def initialState_def)

section \<open>Connect attempts\<close>

lemma cleanupWalletEvents_cases:
  "(\<exists>e. cleanupWalletEvents s = Thrown e s) \<or>
   cleanupWalletEvents s = Returned (s\<lparr>walletEventsUnsubscribe := None\<rparr>)"
proof (cases "walletEventsUnsubscribe s")
  case None
  then have "s\<lparr>walletEventsUnsubscribe := None\<rparr> = s" by simp
  with None show ?thesis by (simp add: cleanupWalletEvents_def)
next
  case (Some u)
  then show ?thesis
    by (cases "subscription_unsubscribe u") (simp_all add: cleanupWalletEvents_def)
qed

lemma subscribeToWalletEvents_cases:
  "(\<exists>e. subscribeToWalletEvents w s = Thrown e s) \<or>
   (\<exists>e. subscribeToWalletEvents w s = Thrown e (s\<lparr>walletEventsUnsubscribe := None\<rparr>)) \<or>
   (\<exists>u. subscribeToWalletEvents w s = Returned (s\<lparr>walletEventsUnsubscribe := u\<rparr>))"
proof -
  let ?s1 = "s\<lparr>walletEventsUnsubscribe := None\<rparr>"
  from cleanupWalletEvents_cases [of s] show ?thesis
  proof
    assume "\<exists>e. cleanupWalletEvents s = Thrown e s"
    then obtain e where "cleanupWalletEvents s = Thrown e s" by blast
    then have "subscribeToWalletEvents w s = Thrown e s"
      by (simp add: subscribeToWalletEvents_def)
    then show ?thesis by blast
  next
    assume c: "cleanupWalletEvents s = Returned ?s1"
    show ?thesis
    proof (cases "hasFeature w ''standard:events''")
      case False
      with c have "subscribeToWalletEvents w s = Returned (s\<lparr>walletEventsUnsubscribe := None\<rparr>)"
        by (simp add: subscribeToWalletEvents_def)
      then show ?thesis by blast
    next
      case True
      show ?thesis
      proof (cases "wallet_events_on w")
        case None
        with c True
        have "subscribeToWalletEvents w s = Returned (s\<lparr>walletEventsUnsubscribe := None\<rparr>)"
          by (simp add: subscribeToWalletEvents_def)
        then show ?thesis by blast
      next
        case (Some m)
        show ?thesis
        proof (cases m)
          case (OnReturns f)
          with c True Some
          have "subscribeToWalletEvents w s =
                  Returned (s\<lparr>walletEventsUnsubscribe :=
                    Some \<lparr>subscription_wallet = w, subscription_unsubscribe = f\<rparr>\<rparr>)"
            by (simp add: subscribeToWalletEvents_def)
          then show ?thesis by blast
        next
          case (OnThrows e)
          with c True Some
          have "subscribeToWalletEvents w s = Thrown e (s\<lparr>walletEventsUnsubscribe := None\<rparr>)"
            by (simp add: subscribeToWalletEvents_def)
          then show ?thesis by blast
        qed
      qed
    qed
  qed
qed

lemma connectTry_fails: "connectFails w out e \<Longrightarrow> connectTry w p out s = Thrown e s"
  by (cases out) (auto simp: connectFails_def connectTry_def getPreferredAccount_def)

lemma connectFinally_frame [simp]:
  "registry (connectFinally lc s) = registry s"
  "localStorage (connectFinally lc s) = localStorage s"
  "selectedWallet (connectFinally lc s) = selectedWallet s"
  "selectedAccount (connectFinally lc s) = selectedAccount s"
  "isConnecting (connectFinally lc s) = False"
  "walletEventsUnsubscribe (connectFinally lc s) = walletEventsUnsubscribe s"
  "registryListeners (connectFinally lc s) = registryListeners s"
  "documentListeners (connectFinally lc s) = documentListeners s"
  "capabilityCalls (connectFinally lc s) = capabilityCalls s"
  "console (connectFinally lc s) = console s"
  "getPreferredWalletId (connectFinally lc s) = getPreferredWalletId s"
  "mountedContainer (connectFinally lc s) = mountedContainer s"
  "elements (connectFinally lc s) = elements s"
  "dom (domTree (connectFinally lc s)) = dom (domTree s)"
  by (simp_all add: connectFinally_def getPreferredWalletId_def)

lemma connectCatch_frame [simp]:
  "registry (connectCatch e s) = registry s"
  "localStorage (connectCatch e s) = localStorage s"
  "selectedWallet (connectCatch e s) = selectedWallet s"
  "selectedAccount (connectCatch e s) = selectedAccount s"
  "isConnecting (connectCatch e s) = isConnecting s"
  "walletEventsUnsubscribe (connectCatch e s) = walletEventsUnsubscribe s"
  "registryListeners (connectCatch e s) = registryListeners s"
  "documentListeners (connectCatch e s) = documentListeners s"
  "capabilityCalls (connectCatch e s) = capabilityCalls s"
  "bridge (connectCatch e s) = bridge s"
  "console (connectCatch e s) = console s @ [ConsoleError ''Wallet connection failed:'' e]"
  "getPreferredWalletId (connectCatch e s) = getPreferredWalletId s"
  "mountedContainer (connectCatch e s) = mountedContainer s"
  "elements (connectCatch e s) = elements s"
  "domTree (connectCatch e s) = domTree s"
  by (simp_all add: connectCatch_def getPreferredWalletId_def)

lemma connectFinally_status:
  "selectedWallet s = None \<or> selectedAccount s = None \<Longrightarrow>
     bridge_status (last (bridge (connectFinally lc s))) = StatusDisconnected"
  by (cases "selectedWallet s"; cases "selectedAccount s")
     (auto simp: connectFinally_def syncBridgeState_def updateWalletBridgeState_def)

text \<open>
  C2. A connect request made while an attempt is in flight, by a click or by the
  automatic reconnection, completes at once and leaves the whole state as it was: wallet,
  account and flag are unchanged and nothing is published to the bridge. Of two requests
  made back to back, the first (for a wallet with the connect feature, as every listed
  wallet has) invokes the capability once and is left waiting; the second adds no
  invocation.
\<close>

theorem connectToWallet_guarded:
  "(isConnecting s \<longrightarrow>
      connectToWallet lc wo s = Completed s \<and> attemptAutoReconnect lc s = Completed s) \<and>
   (\<not> isConnecting s \<and> hasFeature w ''standard:connect'' \<longrightarrow>
      (\<exists>s1. connectToWallet lc (Some w) s = Waiting s1 \<and> isConnecting s1 \<and>
            capabilityCalls s1 = capabilityCalls s @ [ConnectCall w] \<and>
            connectToWallet lc wo s1 = Completed s1))"
  by (cases wo) (simp_all add: connectToWallet_def attemptAutoReconnect_def Let_def
                   split: option.splits)

theorem connectToWallet_guarded_witness:
  "\<not> isConnecting freshState \<and> hasFeature walletBeta ''standard:connect'' \<and>
   isConnecting (stateOf (connectToWallet byLength (Some walletBeta) freshState)) \<and>
   capabilityCalls
     (stateOf (connectToWallet byLength (Some walletAlpha)
        (stateOf (connectToWallet byLength (Some walletBeta) freshState)))) =
     [ConnectCall walletBeta] \<and>
   length (bridge
     (stateOf (connectToWallet byLength (Some walletAlpha)
        (stateOf (connectToWallet byLength (Some walletBeta) freshState))))) = 1"
  using connectToWallet_guarded
          [where s = freshState and lc = byLength and wo = "Some walletAlpha" and w = walletBeta]
        connectToWallet_guarded
          [where s = "stateOf (connectToWallet byLength (Some walletBeta) freshState)"
             and lc = byLength and wo = "Some walletAlpha" and w = walletBeta]
  by (auto simp: connectToWallet_def Let_def hasFeature_def walletBeta_def
        freshState_def initialState_def)

text \<open>
  C6. When a connect attempt fails, because the capability rejects or because no account
  is left to choose, the second half of the attempt completes (its promise is not
  rejected), the error is written to the console, and the connecting flag is cleared.
  When no wallet and no account were selected, none is selected afterwards and the
  bridge is told \<^verbatim>\<open>disconnected\<close>.
\<close>

theorem connect_failure_logged_not_thrown:
  assumes "connectFails w out e"
  shows "\<exists>s'. connectToWalletResume lc w p out s = Completed s' \<and>
           console s' = console s @ [ConsoleError ''Wallet connection failed:'' e] \<and>
           \<not> isConnecting s' \<and>
           (selectedWallet s = None \<and> selectedAccount s = None \<longrightarrow>
              selectedWallet s' = None \<and> selectedAccount s' = None \<and>
              bridge_status (last (bridge s')) = StatusDisconnected)"
  using assms
  by (simp add: connectToWalletResume_def connectTry_fails connectFinally_status)

theorem connect_failure_logged_not_thrown_witness:
  "connectFails walletBeta rejected (CapabilityError ''User rejected the request'') \<and>
   selectedWallet (stateOf (connectToWallet byLength (Some walletBeta) freshState)) = None \<and>
   selectedAccount (stateOf (connectToWallet byLength (Some walletBeta) freshState)) = None \<and>
   console
     (stateOf (connectToWalletResume byLength walletBeta True rejected
        (stateOf (connectToWallet byLength (Some walletBeta) freshState)))) =
     [ConsoleError ''Wallet connection failed:'' (CapabilityError ''User rejected the request'')] \<and>
   \<not> isConnecting
     (stateOf (connectToWalletResume byLength walletBeta True rejected
        (stateOf (connectToWallet byLength (Some walletBeta) freshState)))) \<and>
   selectedWallet
     (stateOf (connectToWalletResume byLength walletBeta True rejected
        (stateOf (connectToWallet byLength (Some walletBeta) freshState)))) = None"
proof -
  have f: "connectFails walletBeta rejected (CapabilityError ''User rejected the request'')"
    by (simp add: connectFails_def rejected_def)
  have n: "selectedWallet (stateOf (connectToWallet byLength (Some walletBeta) freshState)) = None"
    "selectedAccount (stateOf (connectToWallet byLength (Some walletBeta) freshState)) = None"
    "console (stateOf (connectToWallet byLength (Some walletBeta) freshState)) = []"
    by (simp_all add: connectToWallet_def Let_def hasFeature_def walletBeta_def
          freshState_def initialState_def)
  from connect_failure_logged_not_thrown
         [OF f, of byLength True "stateOf (connectToWallet byLength (Some walletBeta) freshState)"]
       f n
  show ?thesis by auto
qed

text \<open>
  C10, as the code has it. A connect attempt that fails because the connect capability
  rejects, or because it leaves no account to choose, leaves the selected wallet, the
  selected account, the stored preference and the wallet-event subscription exactly as
  they were before the attempt began, and clears the connecting flag: a widget connected
  to one wallet stays connected to it after such a failed attempt at another.
\<close>

theorem failed_connect_keeps_selection:
  assumes "\<not> isConnecting s" and "hasFeature w ''standard:connect''" and "connectFails w out e"
  shows "\<exists>s1 s2. connectToWallet lc (Some w) s = Waiting s1 \<and>
           connectToWalletResume lc w p out s1 = Completed s2 \<and>
           selectedWallet s2 = selectedWallet s \<and>
           selectedAccount s2 = selectedAccount s \<and>
           localStorage s2 = localStorage s \<and>
           walletEventsUnsubscribe s2 = walletEventsUnsubscribe s \<and>
           \<not> isConnecting s2"
  using assms
  by (simp add: connectToWallet_def Let_def connectToWalletResume_def connectTry_fails)

theorem failed_connect_keeps_selection_witness:
  "\<not> isConnecting connectedAlpha \<and> hasFeature walletBeta ''standard:connect'' \<and>
   connectFails walletBeta (ConnectResolved None)
     (Error ''Wallet Beta did not return an authorized account.'') \<and>
   selectedWallet
     (stateOf (connectToWalletResume byLength walletBeta True (ConnectResolved None)
        (stateOf (connectToWallet byLength (Some walletBeta) connectedAlpha)))) =
     Some walletAlpha \<and>
   selectedAccount
     (stateOf (connectToWalletResume byLength walletBeta True (ConnectResolved None)
        (stateOf (connectToWallet byLength (Some walletBeta) connectedAlpha)))) =
     Some mainnetAccount \<and>
   getPreferredWalletId
     (stateOf (connectToWalletResume byLength walletBeta True (ConnectResolved None)
        (stateOf (connectToWallet byLength (Some walletBeta) connectedAlpha)))) =
     Some ''Alpha''"
proof -
  have c: "\<not> isConnecting connectedAlpha"
    by (simp add: connectedAlpha_def freshState_def initialState_def)
  have h: "hasFeature walletBeta ''standard:connect''"
    by (simp add: hasFeature_def walletBeta_def)
  have f: "connectFails walletBeta (ConnectResolved None)
             (Error ''Wallet Beta did not return an authorized account.'')"
    by (simp add: connectFails_def walletBeta_def)
  have s: "selectedWallet connectedAlpha = Some walletAlpha"
    "selectedAccount connectedAlpha = Some mainnetAccount"
    "localStorage connectedAlpha = Some [PREFERRED_WALLET_KEY \<mapsto> ''Alpha'']"
    by (simp_all add: connectedAlpha_def freshState_def initialState_def)
  from failed_connect_keeps_selection [OF c h f, of byLength True] c h f s
  show ?thesis by (auto simp: getPreferredWalletId_def)
qed

text \<open>
  An attempt can also fail after the connect capability resolved: the wallet and the
  account are written before the wallet's events are subscribed to. Connected to
  \<^verbatim>\<open>Alpha\<close>, an attempt at a wallet whose \<^verbatim>\<open>on\<close> method throws is logged as failed
  and leaves that wallet selected, its identifier stored, and the listener of
  \<^verbatim>\<open>Alpha\<close> removed.
\<close>

theorem late_connect_failure_replaces_selection_counterexample:
  "selectedWallet connectedAlpha = Some walletAlpha \<and>
   getPreferredWalletId connectedAlpha = Some ''Alpha'' \<and>
   connectToWallet byLength (Some walletDelta) connectedAlpha =
     Waiting (stateOf (connectToWallet byLength (Some walletDelta) connectedAlpha)) \<and>
   console
     (stateOf (connectToWalletResume byLength walletDelta True (ConnectResolved None)
        (stateOf (connectToWallet byLength (Some walletDelta) connectedAlpha)))) =
     [ConsoleError ''Wallet connection failed:'' (CapabilityError ''events unavailable'')] \<and>
   selectedWallet
     (stateOf (connectToWalletResume byLength walletDelta True (ConnectResolved None)
        (stateOf (connectToWallet byLength (Some walletDelta) connectedAlpha)))) =
     Some walletDelta \<and>
   selectedAccount
     (stateOf (connectToWalletResume byLength walletDelta True (ConnectResolved None)
        (stateOf (connectToWallet byLength (Some walletDelta) connectedAlpha)))) =
     Some mainnetAccount \<and>
   getPreferredWalletId
     (stateOf (connectToWalletResume byLength walletDelta True (ConnectResolved None)
        (stateOf (connectToWallet byLength (Some walletDelta) connectedAlpha)))) =
     Some ''delta-id'' \<and>
   walletEventsUnsubscribe
     (stateOf (connectToWalletResume byLength walletDelta True (ConnectResolved None)
        (stateOf (connectToWallet byLength (Some walletDelta) connectedAlpha)))) = None"
  by (simp add: connectToWalletResume_def connectTry_def subscribeToWalletEvents_def
        cleanupWalletEvents_def connectToWallet_def Let_def hasFeature_def
        getPreferredAccount_def includesMainnet_def SUI_MAINNET_CHAIN_def
        getWalletIdentifier_def persistPreferredWallet_def getPreferredWalletId_def
        walletDelta_def mainnetAccount_def connectedAlpha_def freshState_def initialState_def)

section \<open>The selection invariant is kept\<close>

lemma selectionInvariant_ui [simp]:
  "selectionInvariant (refreshButtonUi s) = selectionInvariant s"
  "selectionInvariant (renderWalletList lc s) = selectionInvariant s"
  "selectionInvariant (closeWalletPicker s) = selectionInvariant s"
  "selectionInvariant (syncBridgeState s) = selectionInvariant s"
  "selectionInvariant (persistPreferredWallet wo s) = selectionInvariant s"
  "selectionInvariant (connectFinally lc s) = selectionInvariant s"
  "selectionInvariant (connectCatch e s) = selectionInvariant s"
  by (simp_all add: selectionInvariant_def)

lemma initialState_invariant: "selectionInvariant (initialState ws st ids)"
  by (simp add: selectionInvariant_def initialState_def)

lemma connect_outcome_cases:
  "(\<exists>e. connectFails w out e) \<or>
   (\<exists>r a. out = ConnectResolved r \<and>
      getPreferredAccount (case r of Some as \<Rightarrow> as | None \<Rightarrow> wallet_accounts w) = Some a)"
proof (cases out)
  case (ConnectRejected x)
  then show ?thesis by (simp add: connectFails_def)
next
  case (ConnectResolved r)
  let ?accts = "case r of Some as \<Rightarrow> as | None \<Rightarrow> wallet_accounts w"
  show ?thesis
  proof (cases ?accts)
    case Nil
    with ConnectResolved show ?thesis by (simp add: connectFails_def)
  next
    case (Cons x xs)
    then have "\<exists>a. getPreferredAccount ?accts = Some a"
      by (cases "find includesMainnet (x # xs)") (simp_all add: getPreferredAccount_def)
    with ConnectResolved show ?thesis by blast
  qed
qed

lemma persistPreferredWallet_selection:
  "persistPreferredWallet wo (s\<lparr>selectedWallet := x, selectedAccount := y\<rparr>) =
     (persistPreferredWallet wo s)\<lparr>selectedWallet := x, selectedAccount := y\<rparr>"
  by (simp add: persistPreferredWallet_def split: option.splits)

text \<open>
  Once an account is chosen, the \<^verbatim>\<open>try\<close> block has written the wallet, the account and
  (with \<^verbatim>\<open>persistSelection\<close>) the preference, whether or not the subscription then
  throws; only the subscription variable depends on how it ends.
\<close>

lemma connectTry_chosen:
  assumes "getPreferredAccount (case r of Some as \<Rightarrow> as | None \<Rightarrow> wallet_accounts w) = Some a"
  shows "\<exists>u. (\<exists>e. connectTry w p (ConnectResolved r) s =
                  Thrown e ((if p then persistPreferredWallet (Some w) s else s)
                    \<lparr>selectedWallet := Some w, selectedAccount := Some a,
                     walletEventsUnsubscribe := u\<rparr>)) \<or>
             connectTry w p (ConnectResolved r) s =
               Returned (closeWalletPicker ((if p then persistPreferredWallet (Some w) s else s)
                 \<lparr>selectedWallet := Some w, selectedAccount := Some a,
                  walletEventsUnsubscribe := u\<rparr>))"
proof -
  let ?s2 = "(if p then persistPreferredWallet (Some w) s else s)
               \<lparr>selectedWallet := Some w, selectedAccount := Some a\<rparr>"
  have t: "connectTry w p (ConnectResolved r) s =
             (case subscribeToWalletEvents w ?s2 of
                Thrown e t \<Rightarrow> Thrown e t
              | Returned s3 \<Rightarrow> Returned (closeWalletPicker s3))"
    using assms by (simp add: connectTry_def Let_def persistPreferredWallet_selection)
  have same: "?s2\<lparr>walletEventsUnsubscribe := walletEventsUnsubscribe ?s2\<rparr> = ?s2"
    by simp
  from subscribeToWalletEvents_cases [of w ?s2]
  consider e where "subscribeToWalletEvents w ?s2 = Thrown e ?s2"
    | e where "subscribeToWalletEvents w ?s2 = Thrown e (?s2\<lparr>walletEventsUnsubscribe := None\<rparr>)"
    | u where "subscribeToWalletEvents w ?s2 = Returned (?s2\<lparr>walletEventsUnsubscribe := u\<rparr>)"
    by blast
  then show ?thesis
  proof cases
    case 1
    with t have "connectTry w p (ConnectResolved r) s = Thrown e ?s2" by simp
    then have "connectTry w p (ConnectResolved r) s =
        Thrown e (?s2\<lparr>walletEventsUnsubscribe := walletEventsUnsubscribe ?s2\<rparr>)"
      by (simp only: same)
    then show ?thesis by blast
  next
    case 2
    with t have "connectTry w p (ConnectResolved r) s =
        Thrown e (?s2\<lparr>walletEventsUnsubscribe := None\<rparr>)" by simp
    then show ?thesis by blast
  next
    case 3
    with t have "connectTry w p (ConnectResolved r) s =
        Returned (closeWalletPicker (?s2\<lparr>walletEventsUnsubscribe := u\<rparr>))" by simp
    then show ?thesis by blast
  qed
qed

lemma connectToWalletResume_chosen:
  assumes "getPreferredAccount (case r of Some as \<Rightarrow> as | None \<Rightarrow> wallet_accounts w) = Some a"
  shows "selectedWallet (stateOf (connectToWalletResume lc w p (ConnectResolved r) s)) = Some w"
    and "selectedAccount (stateOf (connectToWalletResume lc w p (ConnectResolved r) s)) = Some a"
    and "localStorage (stateOf (connectToWalletResume lc w p (ConnectResolved r) s)) =
           localStorage (if p then persistPreferredWallet (Some w) s else s)"
  using connectTry_chosen [OF assms, of p s]
  by (auto simp: connectToWalletResume_def)

lemma connectToWalletResume_invariant:
  "selectionInvariant s \<Longrightarrow> selectionInvariant (stateOf (connectToWalletResume lc w p out s))"
proof -
  assume inv: "selectionInvariant s"
  from connect_outcome_cases [of w out] show ?thesis
  proof (elim disjE exE conjE)
    fix e assume "connectFails w out e"
    with inv show ?thesis by (simp add: connectToWalletResume_def connectTry_fails)
  next
    fix r a
    assume "out = ConnectResolved r"
      and "getPreferredAccount (case r of Some as \<Rightarrow> as | None \<Rightarrow> wallet_accounts w) = Some a"
    then show ?thesis
      by (simp add: selectionInvariant_def connectToWalletResume_chosen)
  qed
qed

lemma connectToWallet_invariant:
  "selectionInvariant s \<Longrightarrow> selectionInvariant (stateOf (connectToWallet lc wo s))"
  by (cases wo) (simp_all add: connectToWallet_def Let_def selectionInvariant_def)

lemma disconnectFinally_cases:
  "(\<exists>e. disconnectFinally lc s = Threw e s) \<or>
   (\<exists>s'. disconnectFinally lc s = Completed s' \<and>
      cleanupWalletEvents s = Returned (s\<lparr>walletEventsUnsubscribe := None\<rparr>) \<and>
      selectedWallet s' = None \<and> selectedAccount s' = None \<and>
      walletEventsUnsubscribe s' = None \<and> getPreferredWalletId s' = None)"
  using cleanupWalletEvents_cases [of s]
  by (auto simp: disconnectFinally_def)

lemma disconnectFinally_invariant:
  "selectionInvariant s \<Longrightarrow> selectionInvariant (stateOf (disconnectFinally lc s))"
  using disconnectFinally_cases [of lc s]
  by (auto simp: selectionInvariant_def)

lemma disconnectWallet_invariant:
  assumes "selectionInvariant s"
  shows "selectionInvariant (stateOf (disconnectWallet lc s))"
proof (cases "selectedWallet s")
  case None
  with assms show ?thesis by (simp add: disconnectWallet_def)
next
  case (Some w)
  show ?thesis
  proof (cases "hasFeature w ''standard:disconnect'' \<and> wallet_disconnect w")
    case True
    from assms
    have "selectionInvariant (s\<lparr>capabilityCalls := capabilityCalls s @ [DisconnectCall w]\<rparr>)"
      by (simp add: selectionInvariant_def)
    with Some True show ?thesis by (simp add: disconnectWallet_def)
  next
    case False
    with Some have "disconnectWallet lc s = disconnectFinally lc s"
      by (auto simp: disconnectWallet_def)
    with assms show ?thesis by (simp add: disconnectFinally_invariant)
  qed
qed

lemma disconnectWalletResume_invariant:
  "selectionInvariant s \<Longrightarrow> selectionInvariant (stateOf (disconnectWalletResume lc out s))"
proof (cases out)
  case None
  moreover assume "selectionInvariant s"
  ultimately show ?thesis
    by (simp add: disconnectWalletResume_def disconnectFinally_invariant)
next
  case (Some e)
  moreover assume "selectionInvariant s"
  then have "selectionInvariant
      (s\<lparr>console := console s @ [ConsoleWarn ''Wallet disconnect failed:'' (Some e)]\<rparr>)"
    by (simp add: selectionInvariant_def)
  ultimately show ?thesis
    by (simp add: disconnectWalletResume_def disconnectFinally_invariant)
qed

lemma walletChangeEvent_invariant:
  "selectionInvariant s \<Longrightarrow> selectionInvariant (walletChangeEvent lc w accts s)"
  by (auto simp: walletChangeEvent_def walletChangeListener_def selectionInvariant_def
        split: option.splits)

lemma unregisterHandler_invariant:
  "selectionInvariant s \<Longrightarrow> selectionInvariant (outcomeState (unregisterHandler lc s))"
  using cleanupWalletEvents_cases [of s]
  by (auto simp: unregisterHandler_def selectionInvariant_def)

lemma unregisterHandler_funpow_invariant:
  "selectionInvariant s \<Longrightarrow>
     selectionInvariant (((\<lambda>t. outcomeState (unregisterHandler lc t)) ^^ n) s)"
  by (induction n) (simp_all add: unregisterHandler_invariant)

lemma unregisterEvent_invariant:
  assumes "selectionInvariant s"
  shows "selectionInvariant (unregisterEvent lc w s)"
proof -
  from assms have "selectionInvariant (s\<lparr>registry := removeAll w (registry s)\<rparr>)"
    by (simp add: selectionInvariant_def)
  then show ?thesis
    unfolding unregisterEvent_def by (rule unregisterHandler_funpow_invariant)
qed

text \<open>
  C4. A state in which an account is selected only together with a wallet stays so after
  each operation that writes the selection: a connect request, the settling of a connect
  attempt (success or failure), a disconnect and its settling, a change event of a wallet
  and an unregister event of the registry.
\<close>

theorem selection_invariant_preserved:
  assumes "selectionInvariant s"
  shows "selectionInvariant (stateOf (connectToWallet lc wo s)) \<and>
         selectionInvariant (stateOf (connectToWalletResume lc w p out s)) \<and>
         selectionInvariant (stateOf (disconnectWallet lc s)) \<and>
         selectionInvariant (stateOf (disconnectWalletResume lc err s)) \<and>
         selectionInvariant (walletChangeEvent lc w accts s) \<and>
         selectionInvariant (unregisterEvent lc w s)"
  using assms
  by (simp add: connectToWallet_invariant connectToWalletResume_invariant
        disconnectWallet_invariant disconnectWalletResume_invariant
        walletChangeEvent_invariant unregisterEvent_invariant)

theorem selection_invariant_preserved_witness:
  "selectionInvariant connectedAlpha \<and>
   selectedAccount connectedAlpha = Some mainnetAccount \<and>
   selectionInvariant (walletChangeEvent byLength walletAlpha (Some []) connectedAlpha) \<and>
   selectedWallet (walletChangeEvent byLength walletAlpha (Some []) connectedAlpha) = None \<and>
   selectedAccount (walletChangeEvent byLength walletAlpha (Some []) connectedAlpha) = None"
proof -
  have i: "selectionInvariant connectedAlpha"
    by (simp add: selectionInvariant_def connectedAlpha_def)
  have e: "selectedAccount connectedAlpha = Some mainnetAccount"
    "selectedWallet (walletChangeEvent byLength walletAlpha (Some []) connectedAlpha) = None"
    "selectedAccount (walletChangeEvent byLength walletAlpha (Some []) connectedAlpha) = None"
    by (simp_all add: walletChangeEvent_def walletChangeListener_def getPreferredAccount_def
          connectedAlpha_def)
  from selection_invariant_preserved
         [OF i, where lc = byLength and w = walletAlpha and accts = "Some []"] i e
  show ?thesis by simp
qed

section \<open>The sample states\<close>

lemma attemptAutoReconnect_frame [simp]:
  "registry (stateOf (attemptAutoReconnect lc s)) = registry s"
  "localStorage (stateOf (attemptAutoReconnect lc s)) = localStorage s"
  "mountedContainer (stateOf (attemptAutoReconnect lc s)) = mountedContainer s"
  "elements (stateOf (attemptAutoReconnect lc s)) = elements s"
  "selectedWallet (stateOf (attemptAutoReconnect lc s)) = selectedWallet s"
  "selectedAccount (stateOf (attemptAutoReconnect lc s)) = selectedAccount s"
  "walletEventsUnsubscribe (stateOf (attemptAutoReconnect lc s)) = walletEventsUnsubscribe s"
  "registryListeners (stateOf (attemptAutoReconnect lc s)) = registryListeners s"
  "documentListeners (stateOf (attemptAutoReconnect lc s)) = documentListeners s"
  "dom (domTree (stateOf (attemptAutoReconnect lc s))) = dom (domTree s)"
  by (simp_all add: attemptAutoReconnect_def connectToWallet_def connectFinally_def
        connectCatch_def Let_def split: option.splits)

lemma mountedFresh_facts:
  "selectedWallet mountedFresh = None"
  "selectedAccount mountedFresh = None"
  "walletEventsUnsubscribe mountedFresh = None"
  "registryListeners mountedFresh = Suc 0"
  "documentListeners mountedFresh = [0]"
  "mountedContainer mountedFresh = Some 0"
  "localStorage mountedFresh = Some [PREFERRED_WALLET_KEY \<mapsto> ''Alpha'']"
  "registry mountedFresh = [walletAlpha, walletGamma, walletBeta]"
  "0 \<in> dom (domTree mountedFresh)"
  by (simp_all add: mountedFresh_def mountWalletConnectButton_def Let_def
        attachGlobalHandlers_def freshState_def initialState_def)

lemma mountedFresh_connecting:
  "isConnecting mountedFresh"
  "capabilityCalls mountedFresh = [ConnectCall walletAlpha]"
  by (simp_all add: mountedFresh_def mountWalletConnectButton_def Let_def
        attachGlobalHandlers_def attemptAutoReconnect_def getPreferredWalletId_def
        getConnectableWallets_def sortByName_def canConnect_def hasFeature_def
        getWalletIdentifier_def connectToWallet_def byLength_def
        freshState_def initialState_def walletAlpha_def walletBeta_def walletGamma_def
        PREFERRED_WALLET_KEY_def)

lemma walletAlpha_choice:
  "getPreferredAccount (case None of Some as \<Rightarrow> as | None \<Rightarrow> wallet_accounts walletAlpha) =
     Some mainnetAccount"
  by (simp add: getPreferredAccount_def includesMainnet_def SUI_MAINNET_CHAIN_def
        walletAlpha_def mainnetAccount_def testnetAccount_def)

lemma mountedAlpha_facts:
  "selectedWallet mountedAlpha = Some walletAlpha"
  "selectedAccount mountedAlpha = Some mainnetAccount"
  "walletEventsUnsubscribe mountedAlpha =
     Some \<lparr>subscription_wallet = walletAlpha, subscription_unsubscribe = Unsubscribes\<rparr>"
  "registryListeners mountedAlpha = Suc 0"
  "documentListeners mountedAlpha = [0]"
  "mountedContainer mountedAlpha = Some 0"
  "localStorage mountedAlpha = Some [PREFERRED_WALLET_KEY \<mapsto> ''Alpha'']"
  "registry mountedAlpha = [walletAlpha, walletGamma, walletBeta]"
  "0 \<in> dom (domTree mountedAlpha)"
  using walletAlpha_choice
  by (simp_all add: mountedAlpha_def connectToWalletResume_def connectTry_def Let_def
        subscribeToWalletEvents_def cleanupWalletEvents_def mountedFresh_facts
        hasFeature_def walletAlpha_def)

lemma walletSigma_choice:
  "getPreferredAccount (case None of Some as \<Rightarrow> as | None \<Rightarrow> wallet_accounts walletSigma) =
     Some mainnetAccount"
  by (simp add: getPreferredAccount_def includesMainnet_def SUI_MAINNET_CHAIN_def
        walletSigma_def mainnetAccount_def)

lemma mountedSigma_facts:
  "selectedWallet mountedSigma = Some walletSigma"
  "selectedAccount mountedSigma = Some mainnetAccount"
  "walletEventsUnsubscribe mountedSigma =
     Some \<lparr>subscription_wallet = walletSigma,
           subscription_unsubscribe = UnsubscribeThrows (CapabilityError ''listener unknown'')\<rparr>"
  "registryListeners mountedSigma = Suc 0"
  "documentListeners mountedSigma = [0]"
  "mountedContainer mountedSigma = Some 0"
  "getPreferredWalletId mountedSigma = Some ''Sigma''"
  using walletSigma_choice
  by (simp_all add: mountedSigma_def connectToWalletResume_def connectTry_def Let_def
        subscribeToWalletEvents_def cleanupWalletEvents_def connectToWallet_def
        mountWalletConnectButton_def attachGlobalHandlers_def attemptAutoReconnect_def
        getPreferredWalletId_def persistPreferredWallet_def getWalletIdentifier_def
        initialState_def hasFeature_def walletSigma_def PREFERRED_WALLET_KEY_def)

section \<open>The preferred-wallet record\<close>

lemma cleanupWalletEvents_returns:
  "unsubscribeReturns s \<Longrightarrow>
     cleanupWalletEvents s = Returned (s\<lparr>walletEventsUnsubscribe := None\<rparr>)"
  using cleanupWalletEvents_cases [of s]
  by (auto simp: unsubscribeReturns_def cleanupWalletEvents_def split: option.splits)

lemma cleanupWalletEvents_throws:
  "\<not> unsubscribeReturns s \<Longrightarrow> \<exists>e. cleanupWalletEvents s = Thrown e s"
  by (cases "walletEventsUnsubscribe s")
     (auto simp: unsubscribeReturns_def cleanupWalletEvents_def
        split: unsubscribe_function.splits)

lemma unsubscribeReturns_console [simp]:
  "unsubscribeReturns (s\<lparr>console := c\<rparr>) = unsubscribeReturns s"
  by (simp add: unsubscribeReturns_def)
































section \<open>Mounting and unmounting\<close>

lemma unmount_returns:
  "unsubscribeReturns t \<longrightarrow>
     unmount (UnmountHandle c) t =
       Returned (t\<lparr>walletEventsUnsubscribe := None,
                  mountedContainer :=
                    (if mountedContainer t = Some c then None else mountedContainer t)\<rparr>)"
  by (auto simp: unmount_def cleanupWalletEvents_returns)

lemma unmount_throws:
  "\<not> unsubscribeReturns t \<longrightarrow> (\<exists>e. unmount (UnmountHandle c) t = Thrown e t)"
  using cleanupWalletEvents_throws [of t] by (auto simp: unmount_def)

lemma unmount_frame:
  "registryListeners (outcomeState (unmount h t)) = registryListeners t"
  "documentListeners (outcomeState (unmount h t)) = documentListeners t"
  "domTree (outcomeState (unmount h t)) = domTree t"
  "elements (outcomeState (unmount h t)) = elements t"
  using cleanupWalletEvents_cases [of t]
  by (cases h; auto simp: unmount_def)+

text \<open>
  C9, as the code has it. A mount that writes the widget into a container (one that is
  not the mounted one) returns a handle for it, records the container as mounted,
  attaches one more pair of registry handlers and one more pair of document handlers, and
  leaves the markup in the container. Unmounting that handle calls the stored unsubscribe
  function of the wallet-event subscription. When it returns, the subscription is dropped
  and the container is no longer recorded as mounted, and nothing else changes; when it
  throws, unmount throws and changes nothing. Either way the registry handlers, the
  document handlers, the markup and the element variables stay as they are. Mounting the
  container that is already mounted changes nothing and returns a handle whose unmount
  does nothing.
\<close>

theorem unmount_detaches_wallet_events_only:
  "((case tgt of TargetId i \<Rightarrow> documentIds s i | TargetElement x \<Rightarrow> x) = Some c \<and>
    mountedContainer s \<noteq> Some c \<longrightarrow>
      fst (mountWalletConnectButton lc tgt s) = Some (UnmountHandle c) \<and>
      mountedContainer (snd (mountWalletConnectButton lc tgt s)) = Some c \<and>
      registryListeners (snd (mountWalletConnectButton lc tgt s)) = Suc (registryListeners s) \<and>
      documentListeners (snd (mountWalletConnectButton lc tgt s)) = documentListeners s @ [c] \<and>
      c \<in> dom (domTree (snd (mountWalletConnectButton lc tgt s)))) \<and>
   ((case tgt of TargetId i \<Rightarrow> documentIds s i | TargetElement x \<Rightarrow> x) = Some c \<and>
    mountedContainer s = Some c \<longrightarrow>
      mountWalletConnectButton lc tgt s = (Some NoopHandle, s)) \<and>
   (unsubscribeReturns t \<longrightarrow>
      unmount (UnmountHandle c) t =
        Returned (t\<lparr>walletEventsUnsubscribe := None,
                   mountedContainer :=
                     (if mountedContainer t = Some c then None else mountedContainer t)\<rparr>)) \<and>
   (\<not> unsubscribeReturns t \<longrightarrow> (\<exists>e. unmount (UnmountHandle c) t = Thrown e t)) \<and>
   registryListeners (outcomeState (unmount (UnmountHandle c) t)) = registryListeners t \<and>
   documentListeners (outcomeState (unmount (UnmountHandle c) t)) = documentListeners t \<and>
   domTree (outcomeState (unmount (UnmountHandle c) t)) = domTree t \<and>
   elements (outcomeState (unmount (UnmountHandle c) t)) = elements t \<and>
   unmount NoopHandle t = Returned t"
proof (intro conjI unmount_returns unmount_throws unmount_frame)
  show "(case tgt of TargetId i \<Rightarrow> documentIds s i | TargetElement x \<Rightarrow> x) = Some c \<and>
    mountedContainer s \<noteq> Some c \<longrightarrow>
      fst (mountWalletConnectButton lc tgt s) = Some (UnmountHandle c) \<and>
      mountedContainer (snd (mountWalletConnectButton lc tgt s)) = Some c \<and>
      registryListeners (snd (mountWalletConnectButton lc tgt s)) = Suc (registryListeners s) \<and>
      documentListeners (snd (mountWalletConnectButton lc tgt s)) = documentListeners s @ [c] \<and>
      c \<in> dom (domTree (snd (mountWalletConnectButton lc tgt s)))"
    by (simp add: mountWalletConnectButton_def Let_def attachGlobalHandlers_def)
  show "(case tgt of TargetId i \<Rightarrow> documentIds s i | TargetElement x \<Rightarrow> x) = Some c \<and>
    mountedContainer s = Some c \<longrightarrow>
      mountWalletConnectButton lc tgt s = (Some NoopHandle, s)"
    by (simp add: mountWalletConnectButton_def)
  show "unmount NoopHandle t = Returned t"
    by (simp add: unmount_def)
qed

theorem unmount_detaches_wallet_events_only_witness:
  "mountedContainer freshState \<noteq> Some 0 \<and>
   fst (mountWalletConnectButton byLength (TargetElement (Some 0)) freshState) =
     Some (UnmountHandle 0) \<and>
   unsubscribeReturns mountedAlpha \<and>
   walletEventsUnsubscribe mountedAlpha =
     Some \<lparr>subscription_wallet = walletAlpha, subscription_unsubscribe = Unsubscribes\<rparr> \<and>
   mountedContainer mountedAlpha = Some 0 \<and>
   unmount (UnmountHandle 0) mountedAlpha =
     Returned (mountedAlpha\<lparr>walletEventsUnsubscribe := None, mountedContainer := None\<rparr>) \<and>
   registryListeners (outcomeState (unmount (UnmountHandle 0) mountedAlpha)) = Suc 0 \<and>
   documentListeners (outcomeState (unmount (UnmountHandle 0) mountedAlpha)) = [0] \<and>
   mountWalletConnectButton byLength (TargetElement (Some 0)) mountedAlpha =
     (Some NoopHandle, mountedAlpha)"
proof -
  have m: "mountedContainer freshState \<noteq> Some 0"
    by (simp add: freshState_def initialState_def)
  have u: "unsubscribeReturns mountedAlpha"
    by (simp add: unsubscribeReturns_def mountedAlpha_facts)
  from unmount_detaches_wallet_events_only
         [where tgt = "TargetElement (Some 0)" and s = freshState and c = 0
            and lc = byLength and t = mountedAlpha]
       unmount_detaches_wallet_events_only
         [where tgt = "TargetElement (Some 0)" and s = mountedAlpha and c = 0
            and lc = byLength and t = mountedAlpha]
       m u
  show ?thesis by (simp add: mountedAlpha_facts)
qed

text \<open>
  After the mount into container \<open>0\<close> and the unmount of its handle, the registry
  handlers and the document handlers of that mount are still attached. The handle of a
  second mount into the same container leaves even the wallet-event subscription in
  place. When the stored unsubscribe function throws, unmount throws and the container
  stays recorded as mounted.
\<close>

theorem unmount_leaves_listeners_counterexample:
  "fst (mountWalletConnectButton byLength (TargetElement (Some 0)) freshState) =
     Some (UnmountHandle 0) \<and>
   unmount (UnmountHandle 0) mountedAlpha =
     Returned (mountedAlpha\<lparr>walletEventsUnsubscribe := None, mountedContainer := None\<rparr>) \<and>
   registryListeners (outcomeState (unmount (UnmountHandle 0) mountedAlpha)) = Suc 0 \<and>
   documentListeners (outcomeState (unmount (UnmountHandle 0) mountedAlpha)) = [0] \<and>
   mountWalletConnectButton byLength (TargetElement (Some 0)) mountedAlpha =
     (Some NoopHandle, mountedAlpha) \<and>
   walletEventsUnsubscribe (outcomeState (unmount NoopHandle mountedAlpha)) =
     Some \<lparr>subscription_wallet = walletAlpha, subscription_unsubscribe = Unsubscribes\<rparr> \<and>
   unmount (UnmountHandle 0) mountedSigma =
     Thrown (CapabilityError ''listener unknown'') mountedSigma \<and>
   mountedContainer mountedSigma = Some 0"
  by (simp add: mountWalletConnectButton_def Let_def unmount_def cleanupWalletEvents_def
        mountedAlpha_facts mountedSigma_facts freshState_def initialState_def)

section \<open>Which account a connect result or a change event selects\<close>

lemma getPreferredAccount_choice:
  assumes "accts \<noteq> []"
  shows "\<exists>m. getPreferredAccount accts = Some m \<and>
           ((\<exists>pre post. accts = pre @ m # post \<and> includesMainnet m \<and>
               (\<forall>b\<in>set pre. \<not> includesMainnet b)) \<or>
            ((\<forall>b\<in>set accts. \<not> includesMainnet b) \<and> m = hd accts))"
proof (cases "find includesMainnet accts")
  case None
  then have "\<forall>b\<in>set accts. \<not> includesMainnet b"
    by (simp add: find_None_iff)
  moreover from None assms have "getPreferredAccount accts = Some (hd accts)"
    by (cases accts) (simp_all add: getPreferredAccount_def)
  ultimately show ?thesis by blast
next
  case (Some m)
  from find_first_match [OF Some] obtain pre post
    where "accts = pre @ m # post" "includesMainnet m" "\<forall>b\<in>set pre. \<not> includesMainnet b"
    by blast
  moreover from Some have "getPreferredAccount accts = Some m"
    by (simp add: getPreferredAccount_def)
  ultimately show ?thesis by blast
qed

lemma connectToWalletResume_account:
  assumes "getPreferredAccount (case r of Some as \<Rightarrow> as | None \<Rightarrow> wallet_accounts w) = Some m"
  shows "selectedAccount (stateOf (connectToWalletResume lc w p (ConnectResolved r) s)) = Some m"
  using assms by (rule connectToWalletResume_chosen)

lemma walletChangeListener_account:
  assumes "selectedWallet s \<noteq> None"
    and "getWalletIdentifier (Some w) = getWalletIdentifier (selectedWallet s)"
    and "getPreferredAccount (case r of Some as \<Rightarrow> as | None \<Rightarrow> wallet_accounts w) = Some m"
  shows "selectedAccount (walletChangeListener lc w r s) = Some m"
  using assms by (auto simp: walletChangeListener_def)

text \<open>
  C8. For a non-empty account list the chosen account is the first one whose chain list
  includes \<^verbatim>\<open>sui:mainnet\<close>, and the first account of the list when no account has it;
  for the empty list no account is chosen. The account so chosen is the one selected when
  a connect attempt resolves with that list, and when a change event of the selected
  wallet reports it.
\<close>

theorem getPreferredAccount_first_mainnet_else_first:
  "getPreferredAccount [] = None \<and>
   (includesMainnet a \<longleftrightarrow> (\<exists>cs. account_chains a = Some cs \<and> ''sui:mainnet'' \<in> set cs)) \<and>
   (accts \<noteq> [] \<longrightarrow>
      (\<exists>m. getPreferredAccount accts = Some m \<and>
           ((\<exists>pre post. accts = pre @ m # post \<and> includesMainnet m \<and>
               (\<forall>b\<in>set pre. \<not> includesMainnet b)) \<or>
            ((\<forall>b\<in>set accts. \<not> includesMainnet b) \<and> m = hd accts)) \<and>
           ((case r of Some as \<Rightarrow> as | None \<Rightarrow> wallet_accounts w) = accts \<longrightarrow>
              selectedAccount (stateOf (connectToWalletResume lc w p (ConnectResolved r) s)) = Some m \<and>
              (selectedWallet s \<noteq> None \<and>
               getWalletIdentifier (Some w) = getWalletIdentifier (selectedWallet s) \<longrightarrow>
                 selectedAccount (walletChangeListener lc w r s) = Some m))))"
proof (intro conjI impI)
  show "getPreferredAccount [] = None"
    by (simp add: getPreferredAccount_def)
  show "includesMainnet a \<longleftrightarrow> (\<exists>cs. account_chains a = Some cs \<and> ''sui:mainnet'' \<in> set cs)"
    by (simp add: includesMainnet_def SUI_MAINNET_CHAIN_def split: option.splits)
  assume "accts \<noteq> []"
  from getPreferredAccount_choice [OF this] obtain m
    where m: "getPreferredAccount accts = Some m"
      and first: "(\<exists>pre post. accts = pre @ m # post \<and> includesMainnet m \<and>
               (\<forall>b\<in>set pre. \<not> includesMainnet b)) \<or>
            ((\<forall>b\<in>set accts. \<not> includesMainnet b) \<and> m = hd accts)"
    by blast
  have "(case r of Some as \<Rightarrow> as | None \<Rightarrow> wallet_accounts w) = accts \<longrightarrow>
          selectedAccount (stateOf (connectToWalletResume lc w p (ConnectResolved r) s)) = Some m \<and>
          (selectedWallet s \<noteq> None \<and>
           getWalletIdentifier (Some w) = getWalletIdentifier (selectedWallet s) \<longrightarrow>
             selectedAccount (walletChangeListener lc w r s) = Some m)"
    using m connectToWalletResume_account [where r = r and w = w and m = m and lc = lc and p = p and s = s]
      walletChangeListener_account [where r = r and w = w and m = m and lc = lc and s = s]
    by auto
  with m first
  show "\<exists>m. getPreferredAccount accts = Some m \<and>
           ((\<exists>pre post. accts = pre @ m # post \<and> includesMainnet m \<and>
               (\<forall>b\<in>set pre. \<not> includesMainnet b)) \<or>
            ((\<forall>b\<in>set accts. \<not> includesMainnet b) \<and> m = hd accts)) \<and>
           ((case r of Some as \<Rightarrow> as | None \<Rightarrow> wallet_accounts w) = accts \<longrightarrow>
              selectedAccount (stateOf (connectToWalletResume lc w p (ConnectResolved r) s)) = Some m \<and>
              (selectedWallet s \<noteq> None \<and>
               getWalletIdentifier (Some w) = getWalletIdentifier (selectedWallet s) \<longrightarrow>
                 selectedAccount (walletChangeListener lc w r s) = Some m))"
    by blast
qed

theorem getPreferredAccount_first_mainnet_else_first_witness:
  "[testnetAccount, mainnetAccount] \<noteq> [] \<and>
   includesMainnet mainnetAccount \<and>
   \<not> includesMainnet testnetAccount \<and>
   getPreferredAccount [testnetAccount, mainnetAccount] = Some mainnetAccount \<and>
   wallet_accounts walletAlpha = [testnetAccount, mainnetAccount] \<and>
   selectedAccount
     (stateOf (connectToWalletResume byLength walletAlpha True (ConnectResolved None) freshState)) =
     Some mainnetAccount \<and>
   selectedWallet connectedAlpha \<noteq> None \<and>
   selectedAccount
     (walletChangeListener byLength walletAlpha (Some [testnetAccount]) connectedAlpha) =
     Some testnetAccount"
proof -
  have e: "includesMainnet mainnetAccount" "\<not> includesMainnet testnetAccount"
    "getPreferredAccount [testnetAccount, mainnetAccount] = Some mainnetAccount"
    "getPreferredAccount [testnetAccount] = Some testnetAccount"
    "wallet_accounts walletAlpha = [testnetAccount, mainnetAccount]"
    by (simp_all add: getPreferredAccount_def includesMainnet_def SUI_MAINNET_CHAIN_def
          mainnetAccount_def testnetAccount_def walletAlpha_def)
  have c: "selectedWallet connectedAlpha \<noteq> None"
    "getWalletIdentifier (Some walletAlpha) = getWalletIdentifier (selectedWallet connectedAlpha)"
    by (simp_all add: connectedAlpha_def)
  from getPreferredAccount_first_mainnet_else_first
         [where accts = "[testnetAccount, mainnetAccount]" and r = None and w = walletAlpha
            and lc = byLength and p = True and s = freshState]
       getPreferredAccount_first_mainnet_else_first
         [where accts = "[testnetAccount]" and r = "Some [testnetAccount]" and w = walletAlpha
            and lc = byLength and s = connectedAlpha]
       e c
  show ?thesis by simp
qed

end
